theory Spec2Isabelle
  imports Main "HOL-Library.Char_ord" "HOL-Library.List_Lexorder"
begin

unbundle bit_operations_syntax

section \<open>Python values used by the command layer\<close>

text \<open>
  \<^verbatim>\<open>conans.errors.ConanException\<close> is the only exception the modelled command code
  raises itself; it carries its message.
\<close>

datatype error = ConanException string

text \<open>
  \<^verbatim>\<open>str.split(sep)\<close> for a one-character separator: the string is cut at every
  occurrence of the separator, so a string with \<open>n\<close> separators gives \<open>n + 1\<close> chunks
  and the empty string gives one empty chunk.
\<close>

fun split_char :: "char \<Rightarrow> string \<Rightarrow> string list" where
  "split_char sep [] = [[]]"
| "split_char sep (c # cs) =
     (if c = sep then [] # split_char sep cs
      else (case split_char sep cs of
              [] \<Rightarrow> [[c]]
            | chunk # chunks \<Rightarrow> (c # chunk) # chunks))"

text \<open>\<^verbatim>\<open>sep.join(items)\<close> for a one-character separator.\<close>

fun join_char :: "char \<Rightarrow> string list \<Rightarrow> string" where
  "join_char sep [] = []"
| "join_char sep [x] = x"
| "join_char sep (x # y # ys) = x @ sep # join_char sep (y # ys)"

section \<open>Python truth values of optional arguments\<close>

text \<open>
  argparse leaves \<open>None\<close> for a flag that was not given. Python's \<^verbatim>\<open>if x\<close>,
  \<^verbatim>\<open>x or y\<close> and \<^verbatim>\<open>not x\<close> treat \<open>None\<close>, the empty string and the empty list
  as false.
\<close>

definition truthy_str :: "string option \<Rightarrow> bool" where
  "truthy_str v = (case v of None \<Rightarrow> False | Some s \<Rightarrow> s \<noteq> [])"

definition truthy_list :: "'a list option \<Rightarrow> bool" where
  "truthy_list v = (case v of None \<Rightarrow> False | Some xs \<Rightarrow> xs \<noteq> [])"

definition py_or :: "string option \<Rightarrow> string option \<Rightarrow> string option" where
  "py_or a b = (if truthy_str a then a else b)"

text \<open>\<^verbatim>\<open>x or []\<close> for an optional list.\<close>

definition or_empty :: "'a list option \<Rightarrow> 'a list" where
  "or_empty v = (case v of None \<Rightarrow> [] | Some xs \<Rightarrow> xs)"

section \<open>hashlib: SHA-1 and MD5 on byte strings\<close>

text \<open>
  The digests of the standard library, written out after FIPS 180-4 and RFC 1321 so
  that a digest of a concrete string can be computed. Words are 32-bit unsigned
  integers, held as natural numbers below \<open>2^32\<close> with the wrap-around explicit.
\<close>

definition add32 :: "nat \<Rightarrow> nat \<Rightarrow> nat" where
  "add32 x y = (x + y) mod 4294967296"

definition not32 :: "nat \<Rightarrow> nat" where
  "not32 x = 4294967295 - x"

definition rotl32 :: "nat \<Rightarrow> nat \<Rightarrow> nat" where
  "rotl32 n x = (x * 2 ^ n) mod 4294967296 + x div 2 ^ (32 - n)"

text \<open>
  Both digests pad the message with the byte \<open>0x80\<close>, zero bytes up to 56 modulo 64,
  and the bit length in 8 bytes (big-endian for SHA-1, little-endian for MD5).
\<close>

definition md_pad_len :: "nat \<Rightarrow> nat" where
  "md_pad_len len = (119 - len mod 64) mod 64"

definition be_bytes8 :: "nat \<Rightarrow> nat list" where
  "be_bytes8 n = map (\<lambda>i. (n div 256 ^ i) mod 256) [7, 6, 5, 4, 3, 2, 1, 0]"

definition le_bytes8 :: "nat \<Rightarrow> nat list" where
  "le_bytes8 n = map (\<lambda>i. (n div 256 ^ i) mod 256) [0, 1, 2, 3, 4, 5, 6, 7]"

definition sha1_pad :: "nat list \<Rightarrow> nat list" where
  "sha1_pad bs = bs @ [128] @ replicate (md_pad_len (length bs)) 0 @ be_bytes8 (8 * length bs)"

definition md5_pad :: "nat list \<Rightarrow> nat list" where
  "md5_pad bs = bs @ [128] @ replicate (md_pad_len (length bs)) 0 @ le_bytes8 (8 * length bs)"

fun be_words :: "nat list \<Rightarrow> nat list" where
  "be_words (a # b # c # d # rest) = (((a * 256 + b) * 256 + c) * 256 + d) # be_words rest"
| "be_words _ = []"

fun le_words :: "nat list \<Rightarrow> nat list" where
  "le_words (a # b # c # d # rest) = (((d * 256 + c) * 256 + b) * 256 + a) # le_words rest"
| "le_words _ = []"

fun blocks16 :: "nat list \<Rightarrow> nat list list" where
  "blocks16 (w0 # w1 # w2 # w3 # w4 # w5 # w6 # w7 # w8 # w9 # w10 # w11 # w12 # w13 # w14 # w15 # rest) =
     [w0, w1, w2, w3, w4, w5, w6, w7, w8, w9, w10, w11, w12, w13, w14, w15] # blocks16 rest"
| "blocks16 _ = []"

definition hex_digit :: "nat \<Rightarrow> char" where
  "hex_digit n = ''0123456789abcdef'' ! (n mod 16)"

subsection \<open>SHA-1\<close>

definition sha1_f :: "nat \<Rightarrow> nat \<Rightarrow> nat \<Rightarrow> nat \<Rightarrow> nat" where
  "sha1_f t b c d =
     (if t < 20 then (b AND c) OR (not32 b AND d)
      else if t < 40 then b XOR c XOR d
      else if t < 60 then (b AND c) OR (b AND d) OR (c AND d)
      else b XOR c XOR d)"

definition sha1_k :: "nat \<Rightarrow> nat" where
  "sha1_k t =
     (if t < 20 then 0x5A827999
      else if t < 40 then 0x6ED9EBA1
      else if t < 60 then 0x8F1BBCDC
      else 0xCA62C1D6)"

text \<open>
  The message schedule, latest word first: \<open>n\<close> more words are added in front of
  \<open>ws\<close>, each from the words 3, 8, 14 and 16 places back.
\<close>

fun sha1_schedule :: "nat \<Rightarrow> nat list \<Rightarrow> nat list" where
  "sha1_schedule 0 ws = ws"
| "sha1_schedule (Suc n) ws =
     sha1_schedule n (rotl32 1 (ws ! 2 XOR ws ! 7 XOR ws ! 13 XOR ws ! 15) # ws)"

type_synonym sha1_state = "nat \<times> nat \<times> nat \<times> nat \<times> nat"

fun sha1_rounds :: "nat \<Rightarrow> nat list \<Rightarrow> sha1_state \<Rightarrow> sha1_state" where
  "sha1_rounds t [] s = s"
| "sha1_rounds t (w # ws) (a, b, c, d, e) =
     sha1_rounds (Suc t) ws
       (add32 (add32 (add32 (add32 (rotl32 5 a) (sha1_f t b c d)) e) (sha1_k t)) w,
        a, rotl32 30 b, c, d)"

fun sha1_block :: "sha1_state \<Rightarrow> nat list \<Rightarrow> sha1_state" where
  "sha1_block (h0, h1, h2, h3, h4) block =
     (case sha1_rounds 0 (rev (sha1_schedule 64 (rev block))) (h0, h1, h2, h3, h4) of
        (a, b, c, d, e) \<Rightarrow> (add32 h0 a, add32 h1 b, add32 h2 c, add32 h3 d, add32 h4 e))"

definition sha1_init :: sha1_state where
  "sha1_init = (0x67452301, 0xEFCDAB89, 0x98BADCFE, 0x10325476, 0xC3D2E1F0)"

definition hex_word32 :: "nat \<Rightarrow> string" where
  "hex_word32 w = map (\<lambda>i. hex_digit (w div 16 ^ i)) [7, 6, 5, 4, 3, 2, 1, 0]"

text \<open>\<^verbatim>\<open>hashlib.sha1(s.encode()).hexdigest()\<close>; a \<open>string\<close> is its bytes.\<close>

definition sha1_hexdigest :: "string \<Rightarrow> string" where
  "sha1_hexdigest s =
     (case foldl sha1_block sha1_init (blocks16 (be_words (sha1_pad (map of_char s)))) of
        (a, b, c, d, e) \<Rightarrow> concat (map hex_word32 [a, b, c, d, e]))"

subsection \<open>MD5\<close>

text \<open>The sine table and the rotation amounts of the 64 steps.\<close>

definition md5_table :: "(nat \<times> nat) list" where
  "md5_table =
     [
      (0xD76AA478, 7), (0xE8C7B756, 12), (0x242070DB, 17), (0xC1BDCEEE, 22),
      (0xF57C0FAF, 7), (0x4787C62A, 12), (0xA8304613, 17), (0xFD469501, 22),
      (0x698098D8, 7), (0x8B44F7AF, 12), (0xFFFF5BB1, 17), (0x895CD7BE, 22),
      (0x6B901122, 7), (0xFD987193, 12), (0xA679438E, 17), (0x49B40821, 22),
      (0xF61E2562, 5), (0xC040B340, 9), (0x265E5A51, 14), (0xE9B6C7AA, 20),
      (0xD62F105D, 5), (0x02441453, 9), (0xD8A1E681, 14), (0xE7D3FBC8, 20),
      (0x21E1CDE6, 5), (0xC33707D6, 9), (0xF4D50D87, 14), (0x455A14ED, 20),
      (0xA9E3E905, 5), (0xFCEFA3F8, 9), (0x676F02D9, 14), (0x8D2A4C8A, 20),
      (0xFFFA3942, 4), (0x8771F681, 11), (0x6D9D6122, 16), (0xFDE5380C, 23),
      (0xA4BEEA44, 4), (0x4BDECFA9, 11), (0xF6BB4B60, 16), (0xBEBFBC70, 23),
      (0x289B7EC6, 4), (0xEAA127FA, 11), (0xD4EF3085, 16), (0x04881D05, 23),
      (0xD9D4D039, 4), (0xE6DB99E5, 11), (0x1FA27CF8, 16), (0xC4AC5665, 23),
      (0xF4292244, 6), (0x432AFF97, 10), (0xAB9423A7, 15), (0xFC93A039, 21),
      (0x655B59C3, 6), (0x8F0CCC92, 10), (0xFFEFF47D, 15), (0x85845DD1, 21),
      (0x6FA87E4F, 6), (0xFE2CE6E0, 10), (0xA3014314, 15), (0x4E0811A1, 21),
      (0xF7537E82, 6), (0xBD3AF235, 10), (0x2AD7D2BB, 15), (0xEB86D391, 21)]"

definition md5_f :: "nat \<Rightarrow> nat \<Rightarrow> nat \<Rightarrow> nat \<Rightarrow> nat" where
  "md5_f i b c d =
     (if i < 16 then (b AND c) OR (not32 b AND d)
      else if i < 32 then (d AND b) OR (not32 d AND c)
      else if i < 48 then b XOR c XOR d
      else c XOR (b OR not32 d))"

definition md5_g :: "nat \<Rightarrow> nat" where
  "md5_g i =
     (if i < 16 then i
      else if i < 32 then (5 * i + 1) mod 16
      else if i < 48 then (3 * i + 5) mod 16
      else (7 * i) mod 16)"

type_synonym md5_state = "nat \<times> nat \<times> nat \<times> nat"

fun md5_rounds :: "nat \<Rightarrow> (nat \<times> nat) list \<Rightarrow> nat list \<Rightarrow> md5_state \<Rightarrow> md5_state" where
  "md5_rounds i [] m s = s"
| "md5_rounds i ((k, r) # ks) m (a, b, c, d) =
     md5_rounds (Suc i) ks m
       (d, add32 b (rotl32 r (add32 (add32 (add32 (md5_f i b c d) a) k) (m ! md5_g i))), b, c)"

fun md5_block :: "md5_state \<Rightarrow> nat list \<Rightarrow> md5_state" where
  "md5_block (a0, b0, c0, d0) m =
     (case md5_rounds 0 md5_table m (a0, b0, c0, d0) of
        (a, b, c, d) \<Rightarrow> (add32 a0 a, add32 b0 b, add32 c0 c, add32 d0 d))"

definition md5_init :: md5_state where
  "md5_init = (0x67452301, 0xEFCDAB89, 0x98BADCFE, 0x10325476)"

definition hex_byte :: "nat \<Rightarrow> string" where
  "hex_byte b = [hex_digit (b div 16), hex_digit b]"

definition hex_word32_le :: "nat \<Rightarrow> string" where
  "hex_word32_le w = concat (map (\<lambda>i. hex_byte ((w div 256 ^ i) mod 256)) [0, 1, 2, 3])"

definition md5_hexdigest :: "string \<Rightarrow> string" where
  "md5_hexdigest s =
     (case foldl md5_block md5_init (blocks16 (le_words (md5_pad (map of_char s)))) of
        (a, b, c, d) \<Rightarrow> concat (map hex_word32_le [a, b, c, d]))"

section \<open>Command.test\_package: the build folder of a test run\<close>

text \<open>
  \<^verbatim>\<open>
  options = args.options or []
  settings = args.settings or []

  sha = hashlib.sha1("".join(options + settings).encode()).hexdigest()
  build_folder = os.path.join(test_folder, "build", sha)
  \<close>
  The two lists are the raw \<open>key=value\<close> strings of the command line, in the order
  given; they are concatenated as they are.
\<close>

definition test_package_sha :: "string list option \<Rightarrow> string list option \<Rightarrow> string" where
  "test_package_sha options settings =
     sha1_hexdigest (concat (or_empty options @ or_empty settings))"

section \<open>Command: parsing of repeated key=value arguments\<close>

text \<open>
  \<^verbatim>\<open>
  def _get_tuples_list_from_extender_arg(self, items):
      if not items:
          return []
      # Validate the pairs
      for item in items:
          chunks = item.split("=")
          if len(chunks) != 2:
              raise ConanException("Invalid input '%s', use 'name=value'" % item)
      return [(item[0], item[1]) for item in [item.split("=") for item in items]]
  \<close>
  The argument is what argparse leaves in the namespace: \<open>None\<close> when the flag was
  never given, otherwise the list of the given strings.
\<close>

definition invalid_input_msg :: "string \<Rightarrow> string" where
  "invalid_input_msg item = ''Invalid input '' @ [CHR 0x27] @ item @ [CHR 0x27] @ '', use ''
     @ [CHR 0x27] @ ''name=value'' @ [CHR 0x27]"

fun validate_pairs :: "string list \<Rightarrow> error option" where
  "validate_pairs [] = None"
| "validate_pairs (item # items) =
     (if length (split_char CHR ''='' item) \<noteq> 2
      then Some (ConanException (invalid_input_msg item))
      else validate_pairs items)"

definition chunks_pair :: "string list \<Rightarrow> string \<times> string" where
  "chunks_pair chunks = (chunks ! 0, chunks ! 1)"

definition get_tuples_list_from_extender_arg ::
  "string list option \<Rightarrow> error + (string \<times> string) list" where
  "get_tuples_list_from_extender_arg items =
     (case items of
        None \<Rightarrow> Inr []
      | Some [] \<Rightarrow> Inr []
      | Some its \<Rightarrow>
          (case validate_pairs its of
             Some e \<Rightarrow> Inl e
           | None \<Rightarrow> Inr (map chunks_pair (map (split_char CHR ''='') its))))"

section \<open>Command: resolution of the --build argument\<close>

text \<open>
  The raw argument is loosely typed: argparse leaves \<open>None\<close> or a list of strings;
  the function itself accepts any value and only asks whether it is a list.
\<close>

datatype raw_build = RawNone | RawBool bool | RawStr string | RawList "string list"

text \<open>The four shapes of value the function returns: a boolean, a string or a list.\<close>

datatype build_mode = BuildBool bool | BuildStr string | BuildPatterns "string list"

text \<open>
  \<^verbatim>\<open>
  def _get_build_sources_parameter(self, build_param):
      if isinstance(build_param, list):
          if len(build_param) == 0:  # All packages from source
              return ["*"]
          elif len(build_param) == 1 and build_param[0] == "never":
              return False  # Default
          elif len(build_param) == 1 and build_param[0] == "missing":
              return True
          elif len(build_param) == 1 and build_param[0] == "outdated":
              return "outdated"
          else:  # A list of expressions to match (if matches, will build from source)
              return ["%s*" % ref_expr for ref_expr in build_param]
      else:
          return False  # Nothing is built
  \<close>
\<close>

definition get_build_sources_parameter :: "raw_build \<Rightarrow> build_mode" where
  "get_build_sources_parameter build_param =
     (case build_param of
        RawList xs \<Rightarrow>
          (if length xs = 0 then BuildPatterns [''*'']
           else if length xs = 1 \<and> xs ! 0 = ''never'' then BuildBool False
           else if length xs = 1 \<and> xs ! 0 = ''missing'' then BuildBool True
           else if length xs = 1 \<and> xs ! 0 = ''outdated'' then BuildStr ''outdated''
           else BuildPatterns (map (\<lambda>ref_expr. ref_expr @ ''*'') xs))
      | _ \<Rightarrow> BuildBool False)"

section \<open>posixpath\<close>

text \<open>
  The three functions of \<^verbatim>\<open>os.path\<close> that \<^verbatim>\<open>Command.install\<close> calls, as
  \<^verbatim>\<open>posixpath\<close> defines them: \<^verbatim>\<open>isabs(s)\<close> is \<^verbatim>\<open>s.startswith('/')\<close>;
  \<^verbatim>\<open>join(a, b)\<close> is \<open>b\<close> when \<open>b\<close> is absolute, else \<open>a\<close> and \<open>b\<close> with
  one separator between them unless \<open>a\<close> is empty or ends with one.
\<close>

definition isabs :: "string \<Rightarrow> bool" where
  "isabs s = (case s of [] \<Rightarrow> False | c # _ \<Rightarrow> c = CHR ''/'')"

definition path_join :: "string \<Rightarrow> string \<Rightarrow> string" where
  "path_join a b =
     (if isabs b then b
      else if a = [] \<or> last a = CHR ''/'' then a @ b
      else a @ ''/'' @ b)"

text \<open>
  \<^verbatim>\<open>
  def normpath(path):
      if not path: return '.'
      initial_slashes = path.startswith('/')
      if (initial_slashes and path.startswith('//') and not path.startswith('///')):
          initial_slashes = 2
      comps = path.split('/')
      new_comps = []
      for comp in comps:
          if comp in ('', '.'): continue
          if (comp != '..' or (not initial_slashes and not new_comps) or
               (new_comps and new_comps[-1] == '..')):
              new_comps.append(comp)
          elif new_comps:
              new_comps.pop()
      comps = new_comps
      path = '/'.join(comps)
      if initial_slashes:
          path = '/'*initial_slashes + path
      return path or '.'
  \<close>
\<close>

definition initial_slashes :: "string \<Rightarrow> nat" where
  "initial_slashes path =
     (if isabs path
      then (if take 2 path = ''//'' \<and> take 3 path \<noteq> ''///'' then 2 else 1)
      else 0)"

definition normpath_step :: "nat \<Rightarrow> string list \<Rightarrow> string \<Rightarrow> string list" where
  "normpath_step slashes new_comps part =
     (if part = [] \<or> part = ''.'' then new_comps
      else if part \<noteq> ''..'' \<or> (slashes = 0 \<and> new_comps = [])
              \<or> (new_comps \<noteq> [] \<and> last new_comps = ''..'')
        then new_comps @ [part]
      else if new_comps \<noteq> [] then butlast new_comps
      else new_comps)"

definition normpath :: "string \<Rightarrow> string" where
  "normpath path =
     (if path = [] then ''.''
      else
        (let comps = foldl (normpath_step (initial_slashes path)) [] (split_char CHR ''/'' path);
             p = replicate (initial_slashes path) CHR ''/'' @ join_char CHR ''/'' comps
         in if p = [] then ''.'' else p))"

section \<open>Command: scoped key=value arguments\<close>

text \<open>
  \<^verbatim>\<open>
  def _get_simple_and_package_tuples(self, items):
      simple_items = []
      package_items = defaultdict(list)
      tuples = self._get_tuples_list_from_extender_arg(items)
      for name, value in tuples:
          if ":" in name:  # Scoped items
              tmp = name.split(":", 1)
              ref_name = tmp[0]
              name = tmp[1]
              package_items[ref_name].append((name, value))
          else:
              simple_items.append((name, value))
      return simple_items, package_items
  \<close>
  The dictionary is kept as an association list, a key entering it at its first item.
\<close>

type_synonym package_items = "(string \<times> (string \<times> string) list) list"

fun package_items_append :: "string \<Rightarrow> string \<times> string \<Rightarrow> package_items \<Rightarrow> package_items" where
  "package_items_append ref_name item [] = [(ref_name, [item])]"
| "package_items_append ref_name item ((k, items) # rest) =
     (if k = ref_name then (k, items @ [item]) # rest
      else (k, items) # package_items_append ref_name item rest)"

definition simple_and_package_step ::
  "(string \<times> string) list \<times> package_items \<Rightarrow> string \<times> string
     \<Rightarrow> (string \<times> string) list \<times> package_items" where
  "simple_and_package_step acc tuple =
     (case (acc, tuple) of
        ((simple_items, package_items), (name, val)) \<Rightarrow>
          (if CHR '':'' \<in> set name
           then (simple_items,
                 package_items_append (takeWhile (\<lambda>c. c \<noteq> CHR '':'') name)
                   (tl (dropWhile (\<lambda>c. c \<noteq> CHR '':'') name), val) package_items)
           else (simple_items @ [(name, val)], package_items)))"

definition get_simple_and_package_tuples ::
  "string list option \<Rightarrow> error + ((string \<times> string) list \<times> package_items)" where
  "get_simple_and_package_tuples items =
     (case get_tuples_list_from_extender_arg items of
        Inl e \<Rightarrow> Inl e
      | Inr tuples \<Rightarrow> Inr (foldl simple_and_package_step ([], []) tuples))"

section \<open>Command.install\<close>

text \<open>The namespace argparse returns for \<^verbatim>\<open>conan install\<close>.\<close>

record install_args =
  ia_reference :: string
  ia_package :: "string list option"
  ia_all :: bool
  ia_file :: "string option"
  ia_update :: bool
  ia_scope :: "string list option"
  ia_profile :: "string option"
  ia_generator :: "string list option"
  ia_werror :: bool
  ia_manifests :: "string option"
  ia_manifests_interactive :: "string option"
  ia_verify :: "string option"
  ia_no_imports :: bool
  ia_remote :: "string option"
  ia_options :: "string list option"
  ia_settings :: "string list option"
  ia_env :: "string list option"
  ia_build :: raw_build

text \<open>
  The variable \<^verbatim>\<open>reference\<close> holds a \<^verbatim>\<open>ConanFileReference\<close> when the argument
  parses as one, and a normalised path otherwise.
\<close>

datatype 'r reference = Ref 'r | Path string

text \<open>The keyword arguments of \<^verbatim>\<open>self._manager.install\<close>.\<close>

record ('r, 's) install_kwargs =
  ik_reference :: "'r reference"
  ik_current_path :: string
  ik_remote :: "string option"
  ik_options :: "(string \<times> string) list"
  ik_settings :: "(string \<times> string) list"
  ik_build_mode :: build_mode
  ik_filename :: "string option"
  ik_update :: bool
  ik_manifest_folder :: "string option"
  ik_manifest_verify :: bool
  ik_manifest_interactive :: bool
  ik_scopes :: "'s option"
  ik_generators :: "string list option"
  ik_profile_name :: "string option"
  ik_package_settings :: package_items
  ik_env :: "(string \<times> string) list"
  ik_package_env :: package_items
  ik_no_imports :: bool

text \<open>What the command asks of the manager: a download or an install.\<close>

datatype ('r, 's) manager_call =
  Download 'r "string list" "string option"
| Install "('r, 's) install_kwargs"

definition invalid_reference_msg :: string where
  "invalid_reference_msg = ''Invalid package recipe reference. e.g., MyPackage/1.2@user/channel''"

definition both_manifests_msg :: string where
  "both_manifests_msg = ''Do not specify both manifests and manifests-interactive arguments''"

definition verify_and_manifests_msg :: string where
  "verify_and_manifests_msg = ''Do not specify both '' @ [CHR 0x27] @ ''verify'' @ [CHR 0x27]
     @ '' and '' @ [CHR 0x27] @ ''manifests'' @ [CHR 0x27] @ '' or '' @ [CHR 0x27]
     @ ''manifests-interactive'' @ [CHR 0x27] @ '' arguments''"

text \<open>
  \<^verbatim>\<open>
  manifest_folder = args.verify or args.manifests or args.manifests_interactive
  if manifest_folder:
      if not os.path.isabs(manifest_folder):
          if isinstance(reference, ConanFileReference):
              manifest_folder = os.path.join(current_path, manifest_folder)
          else:
              manifest_folder = os.path.join(reference, manifest_folder)
      manifest_verify = args.verify is not None
      manifest_interactive = args.manifests_interactive is not None
  else:
      manifest_verify = manifest_interactive = False
  \<close>
\<close>

definition resolve_manifest_folder ::
  "string \<Rightarrow> 'r reference \<Rightarrow> install_args \<Rightarrow> string option \<times> bool \<times> bool" where
  "resolve_manifest_folder current_path reference args =
     (let manifest_folder =
            py_or (py_or (ia_verify args) (ia_manifests args)) (ia_manifests_interactive args)
      in case manifest_folder of
           None \<Rightarrow> (None, False, False)
         | Some folder \<Rightarrow>
             if folder = [] then (Some folder, False, False)
             else
               (Some (if isabs folder then folder
                      else (case reference of
                              Ref r \<Rightarrow> path_join current_path folder
                            | Path p \<Rightarrow> path_join p folder)),
                ia_verify args \<noteq> None,
                ia_manifests_interactive args \<noteq> None))"

text \<open>
  \<^verbatim>\<open>Command.install\<close>, from the parsed arguments to the exception raised or the call
  made on the manager. The two statements before the part shown (the trace of the
  command and the \<^verbatim>\<open>werror\<close> flag of the output) bear on neither and are left out.
  \<^verbatim>\<open>ConanFileReference.loads\<close> and \<^verbatim>\<open>Scopes.from_list\<close> are
  not among the sources and are parameters: \<open>loads\<close> gives \<open>None\<close> where the original
  raises (the \<^verbatim>\<open>except:\<close> clause catches everything), \<open>scopes_from_list\<close> gives the
  exception it raises or the scopes. \<open>current_path\<close> is the result of
  \<^verbatim>\<open>os.getcwd()\<close>.
  \<^verbatim>\<open>
  current_path = os.getcwd()
  try:
      reference = ConanFileReference.loads(args.reference)
  except:
      reference = os.path.normpath(os.path.join(current_path, args.reference))

  if args.all or args.package:  # Install packages without settings (fixed ids or all)
      if args.all:
          args.package = []
      if not args.reference or not isinstance(reference, ConanFileReference):
          raise ConanException("Invalid package recipe reference. "
                               "e.g., MyPackage/1.2@user/channel")
      self._manager.download(reference, args.package, remote=args.remote)
  else:  # Classic install, package chosen with settings and options
      # Get False or a list of patterns to check
      args.build = self._get_build_sources_parameter(args.build)
      options = self._get_tuples_list_from_extender_arg(args.options)
      settings, package_settings = self._get_simple_and_package_tuples(args.settings)
      env, package_env = self._get_simple_and_package_tuples(args.env)

      scopes = Scopes.from_list(args.scope) if args.scope else None
      if args.manifests and args.manifests_interactive:
          raise ConanException("Do not specify both manifests and "
                               "manifests-interactive arguments")
      if args.verify and (args.manifests or args.manifests_interactive):
          raise ConanException("Do not specify both 'verify' and "
                               "'manifests' or 'manifests-interactive' arguments")
      ...
      self._manager.install(reference=reference, current_path=current_path, ...)
  \<close>
\<close>

definition install ::
  "(string \<Rightarrow> 'r option) \<Rightarrow> (string list \<Rightarrow> error + 's) \<Rightarrow> string \<Rightarrow> install_args
     \<Rightarrow> error + ('r, 's) manager_call" where
  "install loads scopes_from_list current_path args =
     (let reference =
            (case loads (ia_reference args) of
               Some r \<Rightarrow> Ref r
             | None \<Rightarrow> Path (normpath (path_join current_path (ia_reference args))))
      in
      if ia_all args \<or> truthy_list (ia_package args) then
        (let package = (if ia_all args then [] else or_empty (ia_package args))
         in case reference of
              Ref r \<Rightarrow>
                if ia_reference args = [] then Inl (ConanException invalid_reference_msg)
                else Inr (Download r package (ia_remote args))
            | Path p \<Rightarrow> Inl (ConanException invalid_reference_msg))
      else
        (case get_tuples_list_from_extender_arg (ia_options args) of
           Inl e \<Rightarrow> Inl e
         | Inr options \<Rightarrow>
        (case get_simple_and_package_tuples (ia_settings args) of
           Inl e \<Rightarrow> Inl e
         | Inr (settings, package_settings) \<Rightarrow>
        (case get_simple_and_package_tuples (ia_env args) of
           Inl e \<Rightarrow> Inl e
         | Inr (env, package_env) \<Rightarrow>
        (case (if truthy_list (ia_scope args)
               then (case scopes_from_list (or_empty (ia_scope args)) of
                       Inl e \<Rightarrow> Inl e
                     | Inr sc \<Rightarrow> Inr (Some sc))
               else Inr None) of
           Inl e \<Rightarrow> Inl e
         | Inr scopes \<Rightarrow>
             if truthy_str (ia_manifests args) \<and> truthy_str (ia_manifests_interactive args)
             then Inl (ConanException both_manifests_msg)
             else if truthy_str (ia_verify args)
                     \<and> (truthy_str (ia_manifests args) \<or> truthy_str (ia_manifests_interactive args))
             then Inl (ConanException verify_and_manifests_msg)
             else
               (case resolve_manifest_folder current_path reference args of
                  (manifest_folder, manifest_verify, manifest_interactive) \<Rightarrow>
                    Inr (Install
                      \<lparr>ik_reference = reference,
                       ik_current_path = current_path,
                       ik_remote = ia_remote args,
                       ik_options = options,
                       ik_settings = settings,
                       ik_build_mode = get_build_sources_parameter (ia_build args),
                       ik_filename = ia_file args,
                       ik_update = ia_update args,
                       ik_manifest_folder = manifest_folder,
                       ik_manifest_verify = manifest_verify,
                       ik_manifest_interactive = manifest_interactive,
                       ik_scopes = scopes,
                       ik_generators = ia_generator args,
                       ik_profile_name = ia_profile args,
                       ik_package_settings = package_settings,
                       ik_env = env,
                       ik_package_env = package_env,
                       ik_no_imports = ia_no_imports args\<rparr>)))))))"

text \<open>
  Exactly one of \<^verbatim>\<open>--verify\<close>, \<^verbatim>\<open>--manifests\<close> and
  \<^verbatim>\<open>--manifests-interactive\<close> is given, with a folder that is not the empty string.
\<close>

definition the_one_folder :: "install_args \<Rightarrow> string \<Rightarrow> bool" where
  "the_one_folder args folder \<longleftrightarrow> folder \<noteq> [] \<and>
     ((ia_verify args = Some folder \<and> ia_manifests args = None \<and> ia_manifests_interactive args = None)
      \<or> (ia_verify args = None \<and> ia_manifests args = Some folder \<and> ia_manifests_interactive args = None)
      \<or> (ia_verify args = None \<and> ia_manifests args = None \<and> ia_manifests_interactive args = Some folder))"

section \<open>Command.upload\<close>

text \<open>
  The command line of \<^verbatim>\<open>conan upload\<close> as the user gives it: \<^verbatim>\<open>--retry\<close> and
  \<^verbatim>\<open>--retry_wait\<close> are integers (\<^verbatim>\<open>type=int\<close>) or absent.
\<close>

record upload_cmdline =
  uc_pattern :: string
  uc_package :: "string option"
  uc_remote :: "string option"
  uc_all :: bool
  uc_force :: bool
  uc_confirm :: bool
  uc_retry :: "int option"
  uc_retry_wait :: "int option"

text \<open>The arguments of \<^verbatim>\<open>self._manager.upload\<close>.\<close>

record upload_call =
  up_pattern :: string
  up_package :: "string option"
  up_remote :: "string option"
  up_all_packages :: bool
  up_force :: bool
  up_confirm :: bool
  up_retry :: int
  up_retry_wait :: int

definition package_needs_reference_msg :: string where
  "package_needs_reference_msg =
     ''-p parameter only allowed with a valid recipe reference, not with a pattern''"

text \<open>
  \<^verbatim>\<open>
  parser.add_argument('--retry', default=2, type=int, ...)
  parser.add_argument('--retry_wait', default=5, type=int, ...)

  args = parser.parse_args(*args)
  log_command("upload", vars(args))

  if args.package and not is_a_reference(args.pattern):
      raise ConanException("-p parameter only allowed with a valid recipe reference, "
                           "not with a pattern")

  self._manager.upload(args.pattern, args.package,
                       args.remote, all_packages=args.all,
                       force=args.force, confirm=args.confirm, retry=args.retry,
                       retry_wait=args.retry_wait)
  \<close>
  \<^verbatim>\<open>is_a_reference\<close> (of \<^verbatim>\<open>conans.model.ref\<close>) is not among the sources and is a
  parameter. The result is the exception raised or the call made on the manager; the
  trace of the command is left out.
\<close>

definition upload :: "(string \<Rightarrow> bool) \<Rightarrow> upload_cmdline \<Rightarrow> error + upload_call" where
  "upload is_a_reference cmd =
     (let retry = (case uc_retry cmd of None \<Rightarrow> 2 | Some n \<Rightarrow> n);
          retry_wait = (case uc_retry_wait cmd of None \<Rightarrow> 5 | Some n \<Rightarrow> n)
      in
      if truthy_str (uc_package cmd) \<and> \<not> is_a_reference (uc_pattern cmd)
      then Inl (ConanException package_needs_reference_msg)
      else Inr \<lparr>up_pattern = uc_pattern cmd,
                up_package = uc_package cmd,
                up_remote = uc_remote cmd,
                up_all_packages = uc_all cmd,
                up_force = uc_force cmd,
                up_confirm = uc_confirm cmd,
                up_retry = retry,
                up_retry_wait = retry_wait\<rparr>)"

section \<open>Recipe references\<close>

text \<open>
  Modelled from the spec: \<^verbatim>\<open>ConanFileReference.loads\<close> of \<^verbatim>\<open>conans.model.ref\<close> is
  not among the sources. The spec gives a recipe reference as four opaque strings with
  the textual form \<^verbatim>\<open>name/version@user/channel\<close>; a text of another shape is not a
  reference.
\<close>

record conan_file_reference =
  ref_name :: string
  ref_version :: string
  ref_user :: string
  ref_channel :: string

definition conan_file_reference_loads :: "string \<Rightarrow> conan_file_reference option" where
  "conan_file_reference_loads text =
     (case split_char CHR ''@'' text of
        [name_version, user_channel] \<Rightarrow>
          (case (split_char CHR ''/'' name_version, split_char CHR ''/'' user_channel) of
             ([n, v], [u, c]) \<Rightarrow>
               if n \<noteq> [] \<and> v \<noteq> [] \<and> u \<noteq> [] \<and> c \<noteq> []
               then Some \<lparr>ref_name = n, ref_version = v, ref_user = u, ref_channel = c\<rparr>
               else None
           | _ \<Rightarrow> None)
      | _ \<Rightarrow> None)"

section \<open>Retrying a transfer\<close>

text \<open>
  Modelled from the spec: the code that retries an upload (behind
  \<^verbatim>\<open>ConanManager.upload\<close>) is not among the sources. The spec's retry policy:
  a transient transport failure is retried a caller-specified number of times with a
  caller-specified delay, and after the retries are exhausted the failure is surfaced.
  The transport is a function from the number of the attempt to its outcome; the run
  records each attempt and each wait.
\<close>

datatype 'a attempt = Succeeded 'a | TransientFailure string

datatype retry_event = Attempt nat | Wait int

fun call_with_retry ::
  "nat \<Rightarrow> int \<Rightarrow> (nat \<Rightarrow> 'a attempt) \<Rightarrow> nat \<Rightarrow> retry_event list \<times> (string + 'a)" where
  "call_with_retry 0 retry_wait transport i =
     ([Attempt i],
      (case transport i of Succeeded v \<Rightarrow> Inr v | TransientFailure msg \<Rightarrow> Inl msg))"
| "call_with_retry (Suc retries) retry_wait transport i =
     (case transport i of
        Succeeded v \<Rightarrow> ([Attempt i], Inr v)
      | TransientFailure msg \<Rightarrow>
          (case call_with_retry retries retry_wait transport (Suc i) of
             (events, result) \<Rightarrow> (Attempt i # Wait retry_wait # events, result)))"

text \<open>Modelled from the spec: the upload operation run with the retry arguments it was called with.\<close>

definition run_upload :: "upload_call \<Rightarrow> (nat \<Rightarrow> 'a attempt) \<Rightarrow> retry_event list \<times> (string + 'a)" where
  "run_upload call transport =
     call_with_retry (nat (up_retry call)) (up_retry_wait call) transport 0"

section \<open>Manifests\<close>

text \<open>
  Modelled from the spec: the manifest code (\<^verbatim>\<open>conans.model.manifest\<close>) is not among
  the sources. The spec's manifest is a timestamp and a map from relative path to
  content checksum, computed over the regular files of a folder with the transient
  artifacts of a fixed exclusion list left out; its file format has a leading timestamp
  line and then one line \<^verbatim>\<open>relative/path: checksum\<close> per tracked file, sorted by path.
  The checksum is the MD5 digest the test of the source expects. A folder is the list
  of its files, each a relative path and its content; the exclusion list is the
  parameter \<open>skip\<close>, the wall-clock time of the computation the parameter \<open>now\<close>.
\<close>

type_synonym folder = "(string \<times> string) list"

record manifest =
  m_time :: nat
  m_file_sums :: "(string \<times> string) list"

definition file_sum :: "string \<times> string \<Rightarrow> string \<times> string" where
  "file_sum file = (case file of (path, content) \<Rightarrow> (path, md5_hexdigest content))"

definition tracked :: "(string \<Rightarrow> bool) \<Rightarrow> folder \<Rightarrow> folder" where
  "tracked skip files = filter (\<lambda>file. \<not> skip (fst file)) files"

definition compute :: "(string \<Rightarrow> bool) \<Rightarrow> nat \<Rightarrow> folder \<Rightarrow> manifest" where
  "compute skip now files =
     \<lparr>m_time = now, m_file_sums = map file_sum (tracked skip files)\<rparr>"

text \<open>Modelled from the spec: the decimal digits of the timestamp.\<close>

function show_nat :: "nat \<Rightarrow> string" where
  "show_nat n =
     (if n < 10 then [''0123456789'' ! n]
      else show_nat (n div 10) @ [''0123456789'' ! (n mod 10)])"
  by pat_completeness auto
termination
  by (relation "measure id") auto

definition manifest_line :: "string \<times> string \<Rightarrow> string" where
  "manifest_line entry = (case entry of (path, checksum) \<Rightarrow> path @ '': '' @ checksum)"

definition manifest_lines :: "manifest \<Rightarrow> string list" where
  "manifest_lines m =
     show_nat (m_time m) # map manifest_line (sort_key fst (m_file_sums m))"

definition serialize :: "manifest \<Rightarrow> string" where
  "serialize m = join_char (CHR 0x0A) (manifest_lines m)"

section \<open>Local cache, remote store and synchronisation\<close>

text \<open>
  Modelled from the spec: the manager, the client cache and the remote manager
  (\<^verbatim>\<open>conans.client.manager\<close>, \<^verbatim>\<open>client_cache\<close>, \<^verbatim>\<open>remote_manager\<close>) are not among
  the sources; only the command layer that calls them and the integration test that
  drives them are. What follows is the spec's data model (section 3) and the operations of
  its LocalStore, ArchiveCodec, RemoteSyncEngine and BuildPolicyResolver (section 4), for
  one remote. The source-stage and package-stage callbacks of the recipe are opaque and
  may fail; they are parameters.
\<close>

datatype sync_error = NotFound | Integrity | MissingBinary | BuildFailed | Rejected

text \<open>
  Modelled from the spec: \<open>diff\<close> is a pure set comparison on the path-to-checksum maps; two manifests have the
  same content when it finds nothing.
\<close>

definition same_sums :: "manifest \<Rightarrow> manifest \<Rightarrow> bool" where
  "same_sums a b \<longleftrightarrow> set (m_file_sums a) = set (m_file_sums b)"

text \<open>
  Modelled from the spec: ArchiveCodec: \<open>pack\<close> orders the entries by path; \<open>unpack\<close> rejects an archive with
  a path-escaping entry (an absolute path, or one with a \<^verbatim>\<open>..\<close> component).
\<close>

type_synonym archive = "(string \<times> string) list"

definition escaping :: "string \<Rightarrow> bool" where
  "escaping path \<longleftrightarrow> isabs path \<or> ''..'' \<in> set (split_char CHR ''/'' path)"

definition pack :: "folder \<Rightarrow> archive" where
  "pack files = sort_key fst files"

definition unpack :: "archive \<Rightarrow> sync_error + folder" where
  "unpack a = (if list_ex (\<lambda>entry. escaping (fst entry)) a then Inl Rejected else Inr a)"

text \<open>Modelled from the spec: a folder none of whose paths is escaping.\<close>

definition safe_folder :: "folder \<Rightarrow> bool" where
  "safe_folder files \<longleftrightarrow> list_all (\<lambda>entry. \<not> escaping (fst entry)) files"

text \<open>
  Modelled from the spec: a cache entry owns the export folder with its manifest, the source folder (absent
  until the source stage has run), the build folders and the package folders, each
  package with its own manifest.
\<close>

record package_folder =
  pk_files :: folder
  pk_manifest :: manifest

record cache_entry =
  ce_export :: folder
  ce_manifest :: manifest
  ce_source :: "folder option"
  ce_builds :: "(string \<times> folder) list"
  ce_packages :: "(string \<times> package_folder) list"

record remote_recipe =
  rr_archive :: archive
  rr_manifest :: manifest
  rr_packages :: "(string \<times> archive \<times> manifest) list"

record world =
  w_local :: "conan_file_reference \<Rightarrow> cache_entry option"
  w_remote :: "conan_file_reference \<Rightarrow> remote_recipe option"

definition empty_world :: world where
  "empty_world = \<lparr>w_local = (\<lambda>r. None), w_remote = (\<lambda>r. None)\<rparr>"

definition put :: "string \<Rightarrow> 'v \<Rightarrow> (string \<times> 'v) list \<Rightarrow> (string \<times> 'v) list" where
  "put k v kvs = (k, v) # filter (\<lambda>kv. fst kv \<noteq> k) kvs"

text \<open>
  Modelled from the spec: export: the export folder and its manifest are replaced in full; the other folders of
  an existing entry stay.
\<close>

definition store_export ::
  "(string \<Rightarrow> bool) \<Rightarrow> nat \<Rightarrow> conan_file_reference \<Rightarrow> folder \<Rightarrow> world \<Rightarrow> world" where
  "store_export skip now ref files w =
     w\<lparr>w_local := (w_local w)(ref \<mapsto>
         (case w_local w ref of
            None \<Rightarrow> \<lparr>ce_export = files, ce_manifest = compute skip now files,
                      ce_source = None, ce_builds = [], ce_packages = []\<rparr>
          | Some e \<Rightarrow> e\<lparr>ce_export := files, ce_manifest := compute skip now files\<rparr>))\<rparr>"

text \<open>
  Modelled from the spec: build of one package id: the source folder is populated by the source stage unless it
  is there already, the build folder is a scratch copy of it, and the package folder is
  what the package stage makes of it, with a manifest computed then.
\<close>

definition build_package ::
  "(string \<Rightarrow> bool) \<Rightarrow> nat \<Rightarrow> (folder \<Rightarrow> folder option) \<Rightarrow> (folder \<Rightarrow> folder option)
     \<Rightarrow> conan_file_reference \<Rightarrow> string \<Rightarrow> world \<Rightarrow> sync_error + world" where
  "build_package skip now source_stage package_stage ref pid w =
     (case w_local w ref of
        None \<Rightarrow> Inl NotFound
      | Some e \<Rightarrow>
          (case (case ce_source e of Some src \<Rightarrow> Some src | None \<Rightarrow> source_stage (ce_export e)) of
             None \<Rightarrow> Inl BuildFailed
           | Some src \<Rightarrow>
               (case package_stage src of
                  None \<Rightarrow> Inl BuildFailed
                | Some payload \<Rightarrow>
                    Inr (w\<lparr>w_local := (w_local w)(ref \<mapsto>
                          e\<lparr>ce_source := Some src,
                            ce_builds := put pid src (ce_builds e),
                            ce_packages :=
                              put pid \<lparr>pk_files = payload,
                                       pk_manifest = compute skip now payload\<rparr>
                                (ce_packages e)\<rparr>)\<rparr>))))"

text \<open>
  Modelled from the spec: upload of the recipe and all its packages: a package whose manifest does not match
  its folder is refused; a recipe whose manifest the remote already has is not
  transferred again.
\<close>

definition sync_upload_all ::
  "(string \<Rightarrow> bool) \<Rightarrow> conan_file_reference \<Rightarrow> world \<Rightarrow> sync_error + world" where
  "sync_upload_all skip ref w =
     (case w_local w ref of
        None \<Rightarrow> Inl NotFound
      | Some e \<Rightarrow>
          if list_ex (\<lambda>p. \<not> same_sums (compute skip 0 (pk_files (snd p))) (pk_manifest (snd p)))
               (ce_packages e)
          then Inl Integrity
          else
            (let packages = map (\<lambda>p. (fst p, pack (pk_files (snd p)), pk_manifest (snd p)))
                              (ce_packages e);
                 fresh = \<lparr>rr_archive = pack (ce_export e), rr_manifest = ce_manifest e,
                          rr_packages = packages\<rparr>
             in Inr (w\<lparr>w_remote := (w_remote w)(ref \<mapsto>
                      (case w_remote w ref of
                         None \<Rightarrow> fresh
                       | Some r \<Rightarrow>
                           if rr_manifest r = ce_manifest e
                           then r\<lparr>rr_packages := packages\<rparr>
                           else fresh))\<rparr>)))"

text \<open>Modelled from the spec: removal of the whole cache entry of a reference.\<close>

definition store_remove :: "conan_file_reference \<Rightarrow> world \<Rightarrow> world" where
  "store_remove ref w = w\<lparr>w_local := (w_local w)(ref := None)\<rparr>"

text \<open>
  Modelled from the spec: download: the archive is unpacked and the manifest computed over the result must
  have the content of the manifest delivered with it, which is then the local one. A
  downloaded recipe has no source folder.
\<close>

definition sync_download_recipe ::
  "(string \<Rightarrow> bool) \<Rightarrow> nat \<Rightarrow> conan_file_reference \<Rightarrow> world \<Rightarrow> sync_error + world" where
  "sync_download_recipe skip now ref w =
     (case w_remote w ref of
        None \<Rightarrow> Inl NotFound
      | Some r \<Rightarrow>
          (case unpack (rr_archive r) of
             Inl err \<Rightarrow> Inl err
           | Inr files \<Rightarrow>
               if same_sums (compute skip now files) (rr_manifest r)
               then Inr (w\<lparr>w_local := (w_local w)(ref \<mapsto>
                      (case w_local w ref of
                         None \<Rightarrow> \<lparr>ce_export = files, ce_manifest = rr_manifest r,
                                   ce_source = None, ce_builds = [], ce_packages = []\<rparr>
                       | Some e \<Rightarrow> e\<lparr>ce_export := files, ce_manifest := rr_manifest r\<rparr>))\<rparr>)
               else Inl Integrity))"

definition sync_download_package ::
  "(string \<Rightarrow> bool) \<Rightarrow> nat \<Rightarrow> conan_file_reference \<Rightarrow> string \<Rightarrow> world \<Rightarrow> sync_error + world" where
  "sync_download_package skip now ref pid w =
     (case (w_local w ref, w_remote w ref) of
        (Some e, Some r) \<Rightarrow>
          (case map_of (rr_packages r) pid of
             None \<Rightarrow> Inl NotFound
           | Some (a, m) \<Rightarrow>
               (case unpack a of
                  Inl err \<Rightarrow> Inl err
                | Inr files \<Rightarrow>
                    if same_sums (compute skip now files) m
                    then Inr (w\<lparr>w_local := (w_local w)(ref \<mapsto>
                           e\<lparr>ce_packages :=
                               put pid \<lparr>pk_files = files, pk_manifest = m\<rparr> (ce_packages e)\<rparr>)\<rparr>)
                    else Inl Integrity))
      | _ \<Rightarrow> Inl NotFound)"

text \<open>
  Modelled from the spec: install of one package under the never-build mode: the recipe is fetched when the
  cache has none; a local package with a valid manifest is reused, else the package is
  downloaded when the remote has it, else the binary is missing.
\<close>

definition install_never ::
  "(string \<Rightarrow> bool) \<Rightarrow> nat \<Rightarrow> conan_file_reference \<Rightarrow> string \<Rightarrow> world \<Rightarrow> sync_error + world" where
  "install_never skip now ref pid w =
     (case (case w_local w ref of
              None \<Rightarrow> sync_download_recipe skip now ref w
            | Some e \<Rightarrow> Inr w) of
        Inl err \<Rightarrow> Inl err
      | Inr w1 \<Rightarrow>
          (case w_local w1 ref of
             None \<Rightarrow> Inl NotFound
           | Some e \<Rightarrow>
               (case map_of (ce_packages e) pid of
                  Some pk \<Rightarrow>
                    if same_sums (compute skip now (pk_files pk)) (pk_manifest pk) then Inr w1
                    else (case w_remote w1 ref of
                            None \<Rightarrow> Inl MissingBinary
                          | Some r \<Rightarrow>
                              if map_of (rr_packages r) pid = None then Inl MissingBinary
                              else sync_download_package skip now ref pid w1)
                | None \<Rightarrow>
                    (case w_remote w1 ref of
                       None \<Rightarrow> Inl MissingBinary
                     | Some r \<Rightarrow>
                         if map_of (rr_packages r) pid = None then Inl MissingBinary
                         else sync_download_package skip now ref pid w1))))"

text \<open>
  Modelled from the spec: the scenario of the round trip: export, build of one package, upload of everything,
  removal of the local entry, install.
\<close>

definition round_trip_built ::
  "(string \<Rightarrow> bool) \<Rightarrow> nat \<Rightarrow> nat \<Rightarrow> (folder \<Rightarrow> folder option) \<Rightarrow> (folder \<Rightarrow> folder option)
     \<Rightarrow> conan_file_reference \<Rightarrow> string \<Rightarrow> folder \<Rightarrow> sync_error + world" where
  "round_trip_built skip t_export t_build source_stage package_stage ref pid files =
     build_package skip t_build source_stage package_stage ref pid
       (store_export skip t_export ref files empty_world)"

definition round_trip ::
  "(string \<Rightarrow> bool) \<Rightarrow> nat \<Rightarrow> nat \<Rightarrow> nat \<Rightarrow> (folder \<Rightarrow> folder option) \<Rightarrow> (folder \<Rightarrow> folder option)
     \<Rightarrow> conan_file_reference \<Rightarrow> string \<Rightarrow> folder \<Rightarrow> sync_error + world" where
  "round_trip skip t_export t_build t_install source_stage package_stage ref pid files =
     (case round_trip_built skip t_export t_build source_stage package_stage ref pid files of
        Inl err \<Rightarrow> Inl err
      | Inr built \<Rightarrow>
          (case sync_upload_all skip ref built of
             Inl err \<Rightarrow> Inl err
           | Inr uploaded \<Rightarrow> install_never skip t_install ref pid (store_remove ref uploaded)))"

text \<open>
  Modelled from the spec: update checking: the local and the remote manifest are compared; manifests with the
  same content need no update whatever their timestamps, and with different content an
  update is available when the remote timestamp is strictly newer. The check reports
  and leaves the world as it is.
\<close>

datatype update_status = NoUpdate | UpdateAvailable

definition update_status_of :: "manifest \<Rightarrow> manifest \<Rightarrow> update_status" where
  "update_status_of local remote =
     (if same_sums local remote then NoUpdate
      else if m_time local < m_time remote then UpdateAvailable
      else NoUpdate)"

definition check_updates :: "conan_file_reference \<Rightarrow> world \<Rightarrow> (sync_error + update_status) \<times> world" where
  "check_updates ref w =
     ((case (w_local w ref, w_remote w ref) of
         (Some e, Some r) \<Rightarrow> Inr (update_status_of (ce_manifest e) (rr_manifest r))
       | _ \<Rightarrow> Inl NotFound),
      w)"

text \<open>
  Modelled from the spec: install with update of a recipe: a recipe the cache does not have is retrieved; one
  it has is fetched again when the check reports an update, and is reported as already
  installed otherwise.
\<close>

datatype install_report = AlreadyInstalled | Updated | Retrieved

definition install_update ::
  "(string \<Rightarrow> bool) \<Rightarrow> nat \<Rightarrow> conan_file_reference \<Rightarrow> world \<Rightarrow> sync_error + install_report \<times> world" where
  "install_update skip now ref w =
     (case w_local w ref of
        None \<Rightarrow>
          (case sync_download_recipe skip now ref w of
             Inl err \<Rightarrow> Inl err
           | Inr w1 \<Rightarrow> Inr (Retrieved, w1))
      | Some e \<Rightarrow>
          (case check_updates ref w of
             (Inl err, w1) \<Rightarrow> Inl err
           | (Inr NoUpdate, w1) \<Rightarrow> Inr (AlreadyInstalled, w1)
           | (Inr UpdateAvailable, w1) \<Rightarrow>
               (case sync_download_recipe skip now ref w1 of
                  Inl err \<Rightarrow> Inl err
                | Inr w2 \<Rightarrow> Inr (Updated, w2))))"

section \<open>Example inputs\<close>

text \<open>
  The command line \<^verbatim>\<open>conan install Hello/0.1@lasote/testing --all\<close>, as parsed; the
  other example invocations are variations of it.
\<close>

definition hello_args :: install_args where
  "hello_args =
     \<lparr>ia_reference = ''Hello/0.1@lasote/testing'', ia_package = None, ia_all = True,
      ia_file = None, ia_update = False, ia_scope = None, ia_profile = None,
      ia_generator = None, ia_werror = False, ia_manifests = None,
      ia_manifests_interactive = None, ia_verify = None, ia_no_imports = False,
      ia_remote = None, ia_options = None, ia_settings = None, ia_env = None,
      ia_build = RawNone\<rparr>"

text \<open>The command line \<^verbatim>\<open>conan upload Hello/0.1@lasote/testing\<close>, as given.\<close>

definition hello_upload :: upload_cmdline where
  "hello_upload =
     \<lparr>uc_pattern = ''Hello/0.1@lasote/testing'', uc_package = None, uc_remote = None,
      uc_all = False, uc_force = False, uc_confirm = False, uc_retry = None,
      uc_retry_wait = None\<rparr>"

text \<open>
  The recipe of the integration test: its reference, the package id the test expects, the
  exported files, the files of the package, and the exclusion list.
\<close>

definition hello_ref :: conan_file_reference where
  "hello_ref = \<lparr>ref_name = ''Hello'', ref_version = ''0.1'', ref_user = ''lasote'',
                 ref_channel = ''testing''\<rparr>"

definition hello_pid :: string where
  "hello_pid = ''5ab84d6acfe1f23c4fae0ab88f26e3a396351ac9''"

definition hello_files :: folder where
  "hello_files = [(''conanfile.py'', ''from conans import ConanFile''), (''hello.h'', ''hello'')]"

definition hello_payload :: folder where
  "hello_payload = [(''conaninfo.txt'', ''[settings]''), (''include/hello.h'', ''hello'')]"

definition skip_pyc :: "string \<Rightarrow> bool" where
  "skip_pyc path \<longleftrightarrow> path = ''conanfile.pyc''"

text \<open>
  The recipe as installed from the remote, a remote whose manifest has the same content
  and a later timestamp, and a remote to which \<^verbatim>\<open>license.txt\<close> was added with the
  timestamp of its manifest moved forward, as the update test does.
\<close>

definition installed_entry :: cache_entry where
  "installed_entry =
     \<lparr>ce_export = hello_files, ce_manifest = compute skip_pyc 10 hello_files,
      ce_source = None, ce_builds = [], ce_packages = []\<rparr>"

definition same_remote :: remote_recipe where
  "same_remote =
     \<lparr>rr_archive = hello_files, rr_manifest = compute skip_pyc 12 hello_files, rr_packages = []\<rparr>"

definition licensed_files :: folder where
  "licensed_files = hello_files @ [(''license.txt'', ''mylicense'')]"

definition licensed_remote :: remote_recipe where
  "licensed_remote =
     \<lparr>rr_archive = licensed_files, rr_manifest = compute skip_pyc 11 licensed_files,
      rr_packages = []\<rparr>"

definition installed_world :: "remote_recipe \<Rightarrow> world" where
  "installed_world r =
     \<lparr>w_local = (\<lambda>ref. None)(hello_ref \<mapsto> installed_entry),
      w_remote = (\<lambda>ref. None)(hello_ref \<mapsto> r)\<rparr>"

section \<open>Properties of the string helpers\<close>

lemma split_char_nonempty: "split_char sep s \<noteq> []"
  by (induction s) (auto split: list.splits)

lemma split_char_length: "length (split_char sep s) = Suc (count_list s sep)"
  by (induction s) (auto split: list.splits simp: split_char_nonempty)

lemma split_char_no_sep: "chunk \<in> set (split_char sep s) \<Longrightarrow> sep \<notin> set chunk"
  by (induction s arbitrary: chunk) (auto split: list.splits if_splits)

lemma join_split_char: "join_char sep (split_char sep s) = s"
proof (induction s)
  case Nil
  show ?case by simp
next
  case (Cons c cs)
  obtain x xs where sp: "split_char sep cs = x # xs"
    using split_char_nonempty [of sep cs] by (cases "split_char sep cs") auto
  show ?case
  proof (cases "c = sep")
    case True
    with Cons sp show ?thesis by simp
  next
    case False
    with Cons sp show ?thesis by (cases xs) auto
  qed
qed

lemma split_char_two:
  assumes "length (split_char sep s) = 2"
  shows "s = (split_char sep s ! 0) @ sep # (split_char sep s ! 1)"
proof -
  from assms obtain a b where ab: "split_char sep s = [a, b]"
    by (cases "split_char sep s"; simp; case_tac list; simp)
  have "join_char sep (split_char sep s) = s" by (rule join_split_char)
  with ab show ?thesis by simp
qed

lemma validate_pairs_None:
  "validate_pairs items = None \<longleftrightarrow> (\<forall>item \<in> set items. length (split_char CHR ''='' item) = 2)"
  by (induction items) auto

lemma validate_pairs_Some:
  "validate_pairs items = Some e \<Longrightarrow>
     \<exists>pre item post. items = pre @ item # post
        \<and> (\<forall>p \<in> set pre. length (split_char CHR ''='' p) = 2)
        \<and> length (split_char CHR ''='' item) \<noteq> 2
        \<and> e = ConanException (invalid_input_msg item)"
proof (induction items)
  case Nil
  then show ?case by simp
next
  case (Cons a items)
  show ?case
  proof (cases "length (split_char CHR ''='' a) = 2")
    case False
    with Cons.prems have "e = ConanException (invalid_input_msg a)" by simp
    with False show ?thesis by (intro exI [of _ "[]"] exI [of _ a] exI [of _ items]) simp
  next
    case True
    with Cons.prems have "validate_pairs items = Some e" by simp
    from Cons.IH [OF this] obtain pre item post where
      h: "items = pre @ item # post" "\<forall>p \<in> set pre. length (split_char CHR ''='' p) = 2"
         "length (split_char CHR ''='' item) \<noteq> 2" "e = ConanException (invalid_input_msg item)"
      by blast
    with True show ?thesis
      by (intro exI [of _ "a # pre"] exI [of _ item] exI [of _ post]) simp
  qed
qed


lemma validated_pairs:
  assumes "\<forall>item \<in> set items. length (split_char CHR ''='' item) = 2"
  shows "map (\<lambda>(k, v). k @ ''='' @ v) (map chunks_pair (map (split_char CHR ''='') items)) = items
     \<and> (\<forall>(k, v) \<in> set (map chunks_pair (map (split_char CHR ''='') items)).
            CHR ''='' \<notin> set k \<and> CHR ''='' \<notin> set v)"
  using assms
proof (induction items)
  case Nil
  show ?case by simp
next
  case (Cons item items)
  from Cons.prems have two: "length (split_char CHR ''='' item) = 2" by simp
  then obtain a b where ab: "split_char CHR ''='' item = [a, b]"
    by (cases "split_char CHR ''='' item"; simp; case_tac list; simp)
  have "item = a @ CHR ''='' # b"
    using split_char_two [OF two] ab by simp
  moreover have "CHR ''='' \<notin> set a" "CHR ''='' \<notin> set b"
    using split_char_no_sep [of a "CHR ''=''" item] split_char_no_sep [of b "CHR ''=''" item] ab
    by simp_all
  ultimately show ?case using Cons ab by (simp add: chunks_pair_def)
qed

section \<open>Known digests\<close>

text \<open>The model of the digests is run on test vectors, by rewriting alone.\<close>

lemma replicate_num: "replicate (numeral k) x = x # replicate (pred_numeral k) x"
  by (simp add: numeral_eq_Suc)

lemma sha1_schedule_numeral:
  "sha1_schedule (numeral k) ws =
     sha1_schedule (pred_numeral k) (rotl32 1 (ws ! 2 XOR ws ! 7 XOR ws ! 13 XOR ws ! 15) # ws)"
  by (simp add: numeral_eq_Suc)

lemmas sha1_eval =
  sha1_hexdigest_def sha1_pad_def md_pad_len_def be_bytes8_def replicate_num
  sha1_init_def sha1_schedule_numeral rotl32_def add32_def not32_def
  sha1_f_def sha1_k_def hex_word32_def hex_digit_def

lemmas md5_eval =
  md5_hexdigest_def md5_pad_def md_pad_len_def le_bytes8_def replicate_num
  md5_init_def md5_table_def rotl32_def add32_def not32_def
  md5_f_def md5_g_def hex_word32_le_def hex_byte_def hex_digit_def

lemma sha1_empty: "sha1_hexdigest [] = ''da39a3ee5e6b4b0d3255bfef95601890afd80709''"
  by (simp add: sha1_eval)

lemma sha1_abc: "sha1_hexdigest ''abc'' = ''a9993e364706816aba3e25717850c26c9cd0d89d''"
  by (simp add: sha1_eval)

lemma sha1_a1b2: "sha1_hexdigest ''a=1b=2'' = ''10cf73d13b980e22c78ecdc13f556962f871d697''"
  by (simp add: sha1_eval)

lemma sha1_b2a1: "sha1_hexdigest ''b=2a=1'' = ''1d434d5ae8a543161745a8dab26dad473985fc74''"
  by (simp add: sha1_eval)

lemma md5_hello: "md5_hexdigest ''hello'' = ''5d41402abc4b2a76b9719d911017c592''"
  by (simp add: md5_eval)

lemma md5_data: "md5_hexdigest ''data'' = ''8d777f385d3dfec8815d20f7496026dc''"
  by (simp add: md5_eval)

lemma sha1_hexdigest_length: "length (sha1_hexdigest s) = 40"
  by (simp add: sha1_hexdigest_def hex_word32_def split: prod.splits)

section \<open>Properties of the command functions\<close>

lemma install_download_branch:
  assumes "ia_all args \<or> truthy_list (ia_package args)"
  shows "install loads scopes_from_list current_path args =
     (case loads (ia_reference args) of
        None \<Rightarrow> Inl (ConanException invalid_reference_msg)
      | Some r \<Rightarrow>
          if ia_reference args = [] then Inl (ConanException invalid_reference_msg)
          else Inr (Download r (if ia_all args then [] else or_empty (ia_package args))
                      (ia_remote args)))"
  using assms by (simp add: install_def Let_def split: option.splits)

lemma loads_hello:
  "conan_file_reference_loads ''Hello/0.1@lasote/testing''
     = Some \<lparr>ref_name = ''Hello'', ref_version = ''0.1'', ref_user = ''lasote'',
              ref_channel = ''testing''\<rparr>"
  by (simp add: conan_file_reference_loads_def)

lemma loads_folder: "conan_file_reference_loads ''./my_project'' = None"
  by (simp add: conan_file_reference_loads_def)

lemma loads_empty: "conan_file_reference_loads [] = None"
  by (simp add: conan_file_reference_loads_def)

lemma isabs_path_join: "isabs a \<Longrightarrow> isabs (path_join a b)"
  by (cases a) (auto simp: isabs_def path_join_def split: list.splits)

lemma initial_slashes_pos: "isabs p \<Longrightarrow> 0 < initial_slashes p"
  by (simp add: initial_slashes_def)

lemma isabs_normpath: "isabs p \<Longrightarrow> isabs (normpath p)"
proof -
  assume a: "isabs p"
  then obtain n where n: "initial_slashes p = Suc n"
    using initial_slashes_pos [OF a] by (cases "initial_slashes p") auto
  from a have "p \<noteq> []" by (auto simp: isabs_def)
  then show ?thesis using n by (simp add: normpath_def Let_def isabs_def)
qed

lemma install_classic_error:
  assumes "\<not> ia_all args" "\<not> truthy_list (ia_package args)"
    and "(truthy_str (ia_manifests args) \<and> truthy_str (ia_manifests_interactive args))
         \<or> (truthy_str (ia_verify args)
             \<and> (truthy_str (ia_manifests args) \<or> truthy_str (ia_manifests_interactive args)))"
  shows "\<exists>msg. install loads scopes_from_list current_path args = Inl (ConanException msg)"
proof -
  have "\<exists>e. install loads scopes_from_list current_path args = Inl e"
    using assms by (auto simp: install_def Let_def split: sum.splits prod.splits)
  then obtain e where "install loads scopes_from_list current_path args = Inl e" ..
  then show ?thesis by (cases e) auto
qed

lemma resolve_manifest_folder_one:
  assumes "py_or (py_or (ia_verify args) (ia_manifests args)) (ia_manifests_interactive args)
             = Some folder" "folder \<noteq> []"
  shows "resolve_manifest_folder current_path reference args =
           (Some (if isabs folder then folder
                  else path_join (case reference of Ref r \<Rightarrow> current_path | Path p \<Rightarrow> p) folder),
            ia_verify args \<noteq> None, ia_manifests_interactive args \<noteq> None)"
  using assms by (simp add: resolve_manifest_folder_def split: reference.splits)

lemma install_classic_call:
  assumes "install loads scopes_from_list current_path args = Inr (Install kw)"
  shows "(ik_manifest_folder kw, ik_manifest_verify kw, ik_manifest_interactive kw)
           = resolve_manifest_folder current_path
               (case loads (ia_reference args) of
                  Some r \<Rightarrow> Ref r
                | None \<Rightarrow> Path (normpath (path_join current_path (ia_reference args)))) args"
  using assms
  by (auto simp: install_def Let_def split: if_splits sum.splits prod.splits reference.splits)

lemma the_one_folder_or:
  "the_one_folder args folder \<Longrightarrow>
     py_or (py_or (ia_verify args) (ia_manifests args)) (ia_manifests_interactive args) = Some folder"
  by (auto simp: the_one_folder_def py_or_def truthy_str_def)

lemma call_with_retry_all_fail:
  "call_with_retry n w (\<lambda>j. TransientFailure (msgs j)) i =
     (concat (map (\<lambda>j. [Attempt j, Wait w]) [i..<i + n]) @ [Attempt (i + n)],
      Inl (msgs (i + n)))"
proof (induction n arbitrary: i)
  case 0
  show ?case by simp
next
  case (Suc n)
  have "[i..<i + Suc n] = i # [Suc i..<Suc i + n]"
    by (simp add: upt_rec)
  with Suc [of "Suc i"] show ?case by simp
qed

lemma call_with_retry_success:
  "k \<le> n \<Longrightarrow> (\<forall>j<k. \<exists>m. transport (i + j) = TransientFailure m)
     \<Longrightarrow> transport (i + k) = Succeeded v
     \<Longrightarrow> call_with_retry n w transport i =
           (concat (map (\<lambda>j. [Attempt j, Wait w]) [i..<i + k]) @ [Attempt (i + k)], Inr v)"
proof (induction n arbitrary: i k)
  case 0
  then show ?case by simp
next
  case (Suc n)
  show ?case
  proof (cases k)
    case 0
    with Suc.prems show ?thesis by simp
  next
    case (Suc k')
    from Suc.prems(2) Suc obtain m where m: "transport i = TransientFailure m"
      by (metis add.right_neutral zero_less_Suc)
    have "call_with_retry n w transport (Suc i) =
           (concat (map (\<lambda>j. [Attempt j, Wait w]) [Suc i..<Suc i + k']) @ [Attempt (Suc i + k')], Inr v)"
    proof (rule Suc.IH)
      show "k' \<le> n" using Suc.prems(1) Suc by simp
      show "\<forall>j<k'. \<exists>m. transport (Suc i + j) = TransientFailure m"
      proof (intro allI impI)
        fix j assume "j < k'"
        then have "Suc j < k" using Suc by simp
        with Suc.prems(2) have "\<exists>m. transport (i + Suc j) = TransientFailure m" by blast
        then show "\<exists>m. transport (Suc i + j) = TransientFailure m" by simp
      qed
      show "transport (Suc i + k') = Succeeded v" using Suc.prems(3) Suc by simp
    qed
    moreover have "[i..<i + k] = i # [Suc i..<Suc i + k']"
      using Suc by (simp add: upt_rec)
    ultimately show ?thesis using m Suc by simp
  qed
qed

section \<open>Properties of the manifest\<close>

lemma manifest_lines_compute:
  "manifest_lines (compute skip now files) =
     show_nat now # map manifest_line (sort_key fst (map file_sum (tracked skip files)))"
  by (simp add: manifest_lines_def compute_def)

lemma sorted_manifest_paths:
  "sorted (map fst (sort_key fst (map file_sum (tracked skip files))))"
  by (rule sorted_sort_key)

section \<open>Properties of the cache and the synchronisation\<close>

lemma unpack_pack: "safe_folder files \<Longrightarrow> unpack (pack files) = Inr (sort_key fst files)"
  by (auto simp: safe_folder_def unpack_def pack_def list_ex_iff list_all_iff)

lemma same_sums_refl: "same_sums m m"
  by (simp add: same_sums_def)

lemma same_sums_compute_sorted:
  "same_sums (compute skip t (sort_key fst files)) (compute skip t' files)"
  by (simp add: same_sums_def compute_def tracked_def)

lemma same_sums_compute_time: "same_sums (compute skip t files) (compute skip t' files)"
  by (simp add: same_sums_def compute_def)

lemma map_of_put: "map_of (put k v kvs) k = Some v"
  by (simp add: put_def)

lemma build_package_source:
  "build_package skip now source_stage package_stage ref pid w = Inr w'
     \<Longrightarrow> \<exists>e. w_local w' ref = Some e \<and> ce_source e \<noteq> None"
  by (auto simp: build_package_def split: option.splits)

lemma round_trip_built_eq:
  assumes "source_stage files = Some src" "package_stage src = Some payload"
  shows "round_trip_built skip t_export t_build source_stage package_stage ref pid files =
     Inr \<lparr>w_local = (\<lambda>r. None)(ref \<mapsto>
            \<lparr>ce_export = files, ce_manifest = compute skip t_export files,
             ce_source = Some src, ce_builds = [(pid, src)],
             ce_packages = [(pid, \<lparr>pk_files = payload,
                                   pk_manifest = compute skip t_build payload\<rparr>)]\<rparr>),
          w_remote = (\<lambda>r. None)\<rparr>"
  using assms
  by (simp add: round_trip_built_def build_package_def store_export_def empty_world_def put_def)

lemma upload_built_eq:
  "sync_upload_all skip ref
     \<lparr>w_local = (\<lambda>r. None)(ref \<mapsto>
            \<lparr>ce_export = files, ce_manifest = m,
             ce_source = s, ce_builds = b,
             ce_packages = [(pid, \<lparr>pk_files = payload,
                                   pk_manifest = compute skip t_build payload\<rparr>)]\<rparr>),
      w_remote = (\<lambda>r. None)\<rparr>
   = Inr \<lparr>w_local = (\<lambda>r. None)(ref \<mapsto>
            \<lparr>ce_export = files, ce_manifest = m,
             ce_source = s, ce_builds = b,
             ce_packages = [(pid, \<lparr>pk_files = payload,
                                   pk_manifest = compute skip t_build payload\<rparr>)]\<rparr>),
          w_remote = (\<lambda>r. None)(ref \<mapsto>
            \<lparr>rr_archive = pack files, rr_manifest = m,
             rr_packages = [(pid, pack payload, compute skip t_build payload)]\<rparr>)\<rparr>"
  by (simp add: sync_upload_all_def same_sums_compute_time Let_def)

lemma install_after_remove_eq:
  assumes "safe_folder files" "safe_folder payload"
  shows "install_never skip t_install ref pid
     (store_remove ref
        \<lparr>w_local = l,
         w_remote = (\<lambda>r. None)(ref \<mapsto>
            \<lparr>rr_archive = pack files, rr_manifest = compute skip t_export files,
             rr_packages = [(pid, pack payload, compute skip t_build payload)]\<rparr>)\<rparr>)
   = Inr \<lparr>w_local = l(ref \<mapsto>
            \<lparr>ce_export = sort_key fst files, ce_manifest = compute skip t_export files,
             ce_source = None, ce_builds = [],
             ce_packages = [(pid, \<lparr>pk_files = sort_key fst payload,
                                   pk_manifest = compute skip t_build payload\<rparr>)]\<rparr>),
          w_remote = (\<lambda>r. None)(ref \<mapsto>
            \<lparr>rr_archive = pack files, rr_manifest = compute skip t_export files,
             rr_packages = [(pid, pack payload, compute skip t_build payload)]\<rparr>)\<rparr>"
  using assms
  by (simp add: install_never_def store_remove_def sync_download_recipe_def
      sync_download_package_def unpack_pack same_sums_compute_sorted put_def)

lemma check_updates_world: "snd (check_updates ref w) = w"
  by (simp add: check_updates_def)

lemma install_update_installed:
  assumes "w_local w ref = Some e" "w_remote w ref = Some r"
  shows "install_update skip now ref w =
     (case update_status_of (ce_manifest e) (rr_manifest r) of
        NoUpdate \<Rightarrow> Inr (AlreadyInstalled, w)
      | UpdateAvailable \<Rightarrow>
          (case sync_download_recipe skip now ref w of
             Inl err \<Rightarrow> Inl err
           | Inr w2 \<Rightarrow> Inr (Updated, w2)))"
  using assms by (simp add: install_update_def check_updates_def split: update_status.splits)

lemma download_recipe_installed:
  assumes "w_local w ref = Some e" "w_remote w ref = Some r"
    and "unpack (rr_archive r) = Inr files" "same_sums (compute skip now files) (rr_manifest r)"
  shows "sync_download_recipe skip now ref w =
     Inr (w\<lparr>w_local := (w_local w)(ref \<mapsto> e\<lparr>ce_export := files, ce_manifest := rr_manifest r\<rparr>)\<rparr>)"
  using assms by (simp add: sync_download_recipe_def)

section \<open>Verified properties\<close>

text \<open>
  C9: \<^verbatim>\<open>_get_tuples_list_from_extender_arg\<close> returns the empty list for an absent
  or empty argument; if some item does not split on \<open>=\<close> into exactly two chunks it
  raises a ConanException whose message quotes such an item (so \<open>name\<close> and
  \<open>a=b=c\<close> are both rejected); otherwise it returns one pair per item, in the
  input order, each item being its key, \<open>=\<close>, its value, with no \<open>=\<close> inside
  either.
\<close>

theorem tuples_list_from_extender_arg_spec:
  "get_tuples_list_from_extender_arg None = Inr []
   \<and> get_tuples_list_from_extender_arg (Some []) = Inr []
   \<and> ((\<exists>item \<in> set items. length (split_char CHR ''='' item) \<noteq> 2) \<longrightarrow>
        (\<exists>bad \<in> set items. length (split_char CHR ''='' bad) \<noteq> 2 \<and>
           get_tuples_list_from_extender_arg (Some items)
             = Inl (ConanException (''Invalid input '' @ [CHR 0x27] @ bad @ [CHR 0x27]
                      @ '', use '' @ [CHR 0x27] @ ''name=value'' @ [CHR 0x27]))))
   \<and> ((\<forall>item \<in> set items. length (split_char CHR ''='' item) = 2) \<longrightarrow>
        (\<exists>pairs. get_tuples_list_from_extender_arg (Some items) = Inr pairs
           \<and> map (\<lambda>(k, v). k @ ''='' @ v) pairs = items
           \<and> (\<forall>(k, v) \<in> set pairs. CHR ''='' \<notin> set k \<and> CHR ''='' \<notin> set v)))
   \<and> length (split_char CHR ''='' ''name'') \<noteq> 2
   \<and> length (split_char CHR ''='' ''a=b=c'') \<noteq> 2"
proof (intro conjI impI)
  show "get_tuples_list_from_extender_arg None = Inr []"
    by (simp add: get_tuples_list_from_extender_arg_def)
  show "get_tuples_list_from_extender_arg (Some []) = Inr []"
    by (simp add: get_tuples_list_from_extender_arg_def)
  show "length (split_char CHR ''='' ''name'') \<noteq> 2" by simp
  show "length (split_char CHR ''='' ''a=b=c'') \<noteq> 2" by simp
next
  assume bad: "\<exists>item \<in> set items. length (split_char CHR ''='' item) \<noteq> 2"
  then have "validate_pairs items \<noteq> None" by (simp add: validate_pairs_None)
  then obtain e where e: "validate_pairs items = Some e" by auto
  from validate_pairs_Some [OF e] obtain pre item post where
    h: "items = pre @ item # post" "length (split_char CHR ''='' item) \<noteq> 2"
       "e = ConanException (invalid_input_msg item)" by blast
  from bad have ne: "items \<noteq> []" by auto
  have "get_tuples_list_from_extender_arg (Some items) = Inl e"
    using e ne by (cases items) (simp_all add: get_tuples_list_from_extender_arg_def)
  with h show "\<exists>bad \<in> set items. length (split_char CHR ''='' bad) \<noteq> 2 \<and>
           get_tuples_list_from_extender_arg (Some items)
             = Inl (ConanException (''Invalid input '' @ [CHR 0x27] @ bad @ [CHR 0x27]
                      @ '', use '' @ [CHR 0x27] @ ''name=value'' @ [CHR 0x27]))"
    by (auto simp: invalid_input_msg_def)
next
  assume ok: "\<forall>item \<in> set items. length (split_char CHR ''='' item) = 2"
  then have v: "validate_pairs items = None" by (simp add: validate_pairs_None)
  have "get_tuples_list_from_extender_arg (Some items)
          = Inr (map chunks_pair (map (split_char CHR ''='') items))"
    using v by (cases items) (simp_all add: get_tuples_list_from_extender_arg_def)
  with validated_pairs [OF ok]
  show "\<exists>pairs. get_tuples_list_from_extender_arg (Some items) = Inr pairs
           \<and> map (\<lambda>(k, v). k @ ''='' @ v) pairs = items
           \<and> (\<forall>(k, v) \<in> set pairs. CHR ''='' \<notin> set k \<and> CHR ''='' \<notin> set v)"
    by blast
qed

theorem tuples_list_from_extender_arg_witness:
  "(\<exists>item \<in> set [''os=Linux'', ''name'']. length (split_char CHR ''='' item) \<noteq> 2)
   \<and> (\<exists>bad \<in> set [''os=Linux'', ''name'']. length (split_char CHR ''='' bad) \<noteq> 2 \<and>
         get_tuples_list_from_extender_arg (Some [''os=Linux'', ''name''])
             = Inl (ConanException (''Invalid input '' @ [CHR 0x27] @ bad @ [CHR 0x27]
                      @ '', use '' @ [CHR 0x27] @ ''name=value'' @ [CHR 0x27])))
   \<and> length (split_char CHR ''='' ''os=Linux'') = 2
   \<and> length (split_char CHR ''='' ''arch=x86'') = 2
   \<and> (\<exists>pairs. get_tuples_list_from_extender_arg (Some [''os=Linux'', ''arch=x86'']) = Inr pairs
           \<and> map (\<lambda>(k, v). k @ ''='' @ v) pairs = [''os=Linux'', ''arch=x86'']
           \<and> (\<forall>(k, v) \<in> set pairs. CHR ''='' \<notin> set k \<and> CHR ''='' \<notin> set v))"
proof -
  have bad: "\<exists>item \<in> set [''os=Linux'', ''name'']. length (split_char CHR ''='' item) \<noteq> 2"
    by simp
  have ok: "\<forall>item \<in> set [''os=Linux'', ''arch=x86'']. length (split_char CHR ''='' item) = 2"
    by simp
  note t1 = tuples_list_from_extender_arg_spec [of "[''os=Linux'', ''name'']"]
  note t2 = tuples_list_from_extender_arg_spec [of "[''os=Linux'', ''arch=x86'']"]
  have 1: "\<exists>bad \<in> set [''os=Linux'', ''name'']. length (split_char CHR ''='' bad) \<noteq> 2 \<and>
         get_tuples_list_from_extender_arg (Some [''os=Linux'', ''name''])
             = Inl (ConanException (''Invalid input '' @ [CHR 0x27] @ bad @ [CHR 0x27]
                      @ '', use '' @ [CHR 0x27] @ ''name=value'' @ [CHR 0x27]))"
    by (rule mp [OF conjunct1 [OF conjunct2 [OF conjunct2 [OF t1]]] bad])
  have 2: "\<exists>pairs. get_tuples_list_from_extender_arg (Some [''os=Linux'', ''arch=x86'']) = Inr pairs
           \<and> map (\<lambda>(k, v). k @ ''='' @ v) pairs = [''os=Linux'', ''arch=x86'']
           \<and> (\<forall>(k, v) \<in> set pairs. CHR ''='' \<notin> set k \<and> CHR ''='' \<notin> set v)"
    by (rule mp [OF conjunct1 [OF conjunct2 [OF conjunct2 [OF conjunct2 [OF t2]]]] ok])
  have l1: "length (split_char CHR ''='' ''os=Linux'') = 2" by simp
  have l2: "length (split_char CHR ''='' ''arch=x86'') = 2" by simp
  show ?thesis by (intro conjI bad l1 l2 1 2)
qed

text \<open>
  C2: \<^verbatim>\<open>_get_build_sources_parameter\<close> gives False for a value that is not a list
  and for \<open>["never"]\<close>, True for \<open>["missing"]\<close>, the keyword for
  \<open>["outdated"]\<close>, the pattern list \<open>["*"]\<close> for the empty list, and for every
  other list the given expressions each suffixed with \<open>*\<close>; every result is one of
  these four shapes.
\<close>

theorem build_sources_parameter_cases:
  "((\<forall>ys. p \<noteq> RawList ys) \<longrightarrow> get_build_sources_parameter p = BuildBool False)
   \<and> get_build_sources_parameter (RawList [''never'']) = BuildBool False
   \<and> get_build_sources_parameter (RawList [''missing'']) = BuildBool True
   \<and> get_build_sources_parameter (RawList [''outdated'']) = BuildStr ''outdated''
   \<and> get_build_sources_parameter (RawList []) = BuildPatterns [''*'']
   \<and> (xs \<notin> {[], [''never''], [''missing''], [''outdated'']} \<longrightarrow>
        get_build_sources_parameter (RawList xs) = BuildPatterns (map (\<lambda>e. e @ ''*'') xs))
   \<and> get_build_sources_parameter p
        \<in> {BuildBool False, BuildBool True, BuildStr ''outdated''} \<union> range BuildPatterns"
proof (intro conjI impI)
  assume "\<forall>ys. p \<noteq> RawList ys"
  then show "get_build_sources_parameter p = BuildBool False"
    by (cases p) (simp_all add: get_build_sources_parameter_def)
next
  assume "xs \<notin> {[], [''never''], [''missing''], [''outdated'']}"
  then show "get_build_sources_parameter (RawList xs) = BuildPatterns (map (\<lambda>e. e @ ''*'') xs)"
    by (cases xs; cases "tl xs") (auto simp: get_build_sources_parameter_def)
next
  show "get_build_sources_parameter p
        \<in> {BuildBool False, BuildBool True, BuildStr ''outdated''} \<union> range BuildPatterns"
    by (cases p) (auto simp: get_build_sources_parameter_def)
qed (simp_all add: get_build_sources_parameter_def)

theorem build_sources_parameter_witness:
  "(\<forall>ys. RawNone \<noteq> RawList ys) \<and> get_build_sources_parameter RawNone = BuildBool False
   \<and> [''Hello'', ''zlib/1.2''] \<notin> {[], [''never''], [''missing''], [''outdated'']}
   \<and> get_build_sources_parameter (RawList [''Hello'', ''zlib/1.2''])
        = BuildPatterns (map (\<lambda>e. e @ ''*'') [''Hello'', ''zlib/1.2''])"
proof -
  have a: "\<forall>ys. RawNone \<noteq> RawList ys" by simp
  have b: "[''Hello'', ''zlib/1.2''] \<notin> {[], [''never''], [''missing''], [''outdated'']}" by simp
  note t = build_sources_parameter_cases [of RawNone "[''Hello'', ''zlib/1.2'']"]
  have 1: "get_build_sources_parameter RawNone = BuildBool False"
    by (rule mp [OF conjunct1 [OF t] a])
  have 2: "get_build_sources_parameter (RawList [''Hello'', ''zlib/1.2''])
        = BuildPatterns (map (\<lambda>e. e @ ''*'') [''Hello'', ''zlib/1.2''])"
    by (rule mp [OF conjunct1 [OF conjunct2 [OF conjunct2 [OF conjunct2 [OF conjunct2 [OF conjunct2 [OF t]]]]]] b])
  show ?thesis by (intro conjI a b 1 2)
qed

text \<open>
  C6: with no options and no settings, whether the flags are absent or empty, the hash
  of \<^verbatim>\<open>test_package\<close> is the SHA-1 digest of the empty string, a fixed constant;
  the digest has 40 hexadecimal characters for every configuration, and parsing the
  absent options afterwards gives the empty list rather than an error.
\<close>

theorem test_package_sha_empty:
  "test_package_sha None None = ''da39a3ee5e6b4b0d3255bfef95601890afd80709''
   \<and> test_package_sha (Some []) (Some []) = ''da39a3ee5e6b4b0d3255bfef95601890afd80709''
   \<and> test_package_sha None None = sha1_hexdigest []
   \<and> length (test_package_sha options settings) = 40
   \<and> get_tuples_list_from_extender_arg None = Inr []"
  by (simp add: test_package_sha_def or_empty_def sha1_empty sha1_hexdigest_length
      get_tuples_list_from_extender_arg_def)

text \<open>
  C1, as stated, fails: the hash of \<^verbatim>\<open>test_package\<close> is taken over the strings in the
  order given, nothing is sorted. The options \<open>a=1\<close>, \<open>b=2\<close> and the same two options
  in reverse order give different digests.
\<close>

theorem test_package_sha_order_counterexample:
  "[''b=2'', ''a=1''] = rev [''a=1'', ''b=2'']
   \<and> test_package_sha (Some [''a=1'', ''b=2'']) None
       \<noteq> test_package_sha (Some (rev [''a=1'', ''b=2''])) None"
  by (simp add: test_package_sha_def or_empty_def sha1_a1b2 sha1_b2a1)

text \<open>
  C1, amended: the hash of \<^verbatim>\<open>test_package\<close> depends only on the concatenation of
  the option strings followed by the setting strings, in the order given: two
  configurations whose concatenations are the same string have the same hash.
\<close>

theorem test_package_sha_concat:
  "concat (or_empty options @ or_empty settings) = concat (or_empty options' @ or_empty settings')
   \<Longrightarrow> test_package_sha options settings = test_package_sha options' settings'"
  by (simp add: test_package_sha_def)

theorem test_package_sha_concat_witness:
  "test_package_sha (Some [''a=1'']) (Some [''b=2'']) = test_package_sha (Some [''a=1'', ''b=2'']) None"
  by (rule test_package_sha_concat) (simp add: or_empty_def)

text \<open>
  C8: when \<^verbatim>\<open>--all\<close> or at least one \<^verbatim>\<open>--package\<close> is given, an empty reference
  argument or one that does not load as a recipe reference makes \<^verbatim>\<open>install\<close> raise
  the ConanException of an invalid recipe reference, the manager not being called; a
  reference that loads is downloaded, with the empty package list under \<^verbatim>\<open>--all\<close>
  and the given package ids otherwise.
\<close>

theorem install_packages_reference:
  "(ia_all args \<or> truthy_list (ia_package args)) \<longrightarrow>
     ((ia_reference args = [] \<or> loads (ia_reference args) = None) \<longrightarrow>
        install loads scopes_from_list current_path args
          = Inl (ConanException invalid_reference_msg))
     \<and> (\<forall>r. ia_reference args \<noteq> [] \<and> loads (ia_reference args) = Some r \<longrightarrow>
          install loads scopes_from_list current_path args
            = Inr (Download r (if ia_all args then [] else or_empty (ia_package args))
                     (ia_remote args)))"
  by (auto simp: install_download_branch split: option.splits)

theorem install_packages_reference_witness:
  "install conan_file_reference_loads (\<lambda>items. Inr ()) ''/home/user''
       (hello_args\<lparr>ia_reference := ''./my_project''\<rparr>)
     = Inl (ConanException invalid_reference_msg)
   \<and> install conan_file_reference_loads (\<lambda>items. Inr ()) ''/home/user''
       (hello_args\<lparr>ia_reference := [], ia_all := False, ia_package := Some [''abc123'']\<rparr>)
     = Inl (ConanException invalid_reference_msg)
   \<and> install conan_file_reference_loads (\<lambda>items. Inr ()) ''/home/user'' hello_args
     = Inr (Download \<lparr>ref_name = ''Hello'', ref_version = ''0.1'', ref_user = ''lasote'',
                      ref_channel = ''testing''\<rparr> [] None)"
proof -
  let ?i = "install conan_file_reference_loads (\<lambda>items. Inr ()) ''/home/user''"
  have 1: "?i (hello_args\<lparr>ia_reference := ''./my_project''\<rparr>)
             = Inl (ConanException invalid_reference_msg)"
    using install_packages_reference
      [of "hello_args\<lparr>ia_reference := ''./my_project''\<rparr>" conan_file_reference_loads
          "\<lambda>items. Inr ()" "''/home/user''"]
    by (simp add: hello_args_def loads_folder)
  have 2: "?i (hello_args\<lparr>ia_reference := [], ia_all := False, ia_package := Some [''abc123'']\<rparr>)
             = Inl (ConanException invalid_reference_msg)"
    using install_packages_reference
      [of "hello_args\<lparr>ia_reference := [], ia_all := False, ia_package := Some [''abc123'']\<rparr>"
          conan_file_reference_loads "\<lambda>items. Inr ()" "''/home/user''"]
    by (simp add: hello_args_def truthy_list_def)
  have 3: "?i hello_args
     = Inr (Download \<lparr>ref_name = ''Hello'', ref_version = ''0.1'', ref_user = ''lasote'',
                      ref_channel = ''testing''\<rparr> [] None)"
    using install_packages_reference
      [of hello_args conan_file_reference_loads "\<lambda>items. Inr ()" "''/home/user''"]
    by (simp add: hello_args_def loads_hello)
  from 1 2 3 show ?thesis by (intro conjI)
qed

text \<open>
  C10, as stated, fails: with \<^verbatim>\<open>--all\<close> the manifest flags are never looked at, so
  \<^verbatim>\<open>--manifests\<close> together with \<^verbatim>\<open>--manifests-interactive\<close> raises nothing and
  the recipe is downloaded.
\<close>

theorem install_manifest_flags_counterexample:
  "truthy_str (ia_manifests
      (hello_args\<lparr>ia_manifests := Some ''.conan_manifests'',
                  ia_manifests_interactive := Some ''.conan_manifests''\<rparr>))
   \<and> truthy_str (ia_manifests_interactive
      (hello_args\<lparr>ia_manifests := Some ''.conan_manifests'',
                  ia_manifests_interactive := Some ''.conan_manifests''\<rparr>))
   \<and> install conan_file_reference_loads (\<lambda>items. Inr ()) ''/home/user''
        (hello_args\<lparr>ia_manifests := Some ''.conan_manifests'',
                    ia_manifests_interactive := Some ''.conan_manifests''\<rparr>)
      = Inr (Download \<lparr>ref_name = ''Hello'', ref_version = ''0.1'', ref_user = ''lasote'',
                       ref_channel = ''testing''\<rparr> [] None)"
  by (simp add: hello_args_def truthy_str_def install_def loads_hello)

text \<open>
  C10, amended: in a classic install (neither \<^verbatim>\<open>--all\<close> nor a \<^verbatim>\<open>--package\<close>),
  \<^verbatim>\<open>--manifests\<close> together with \<^verbatim>\<open>--manifests-interactive\<close>, each with a non-empty
  folder, raises a ConanException, and so does \<^verbatim>\<open>--verify\<close> together with either of
  them; when exactly one of the three is given with a non-empty folder and the install is
  called, the folder passed on is the given one if absolute and otherwise joined to the
  current directory (for a recipe reference) or to the normalised path of the reference
  argument, which is an absolute path when the current directory is; the verify and
  interactive flags passed on say which of the three it was.
\<close>

theorem install_manifest_flags:
  "\<not> ia_all args \<and> \<not> truthy_list (ia_package args) \<longrightarrow>
     (truthy_str (ia_manifests args) \<and> truthy_str (ia_manifests_interactive args) \<longrightarrow>
        (\<exists>msg. install loads scopes_from_list current_path args = Inl (ConanException msg)))
     \<and> (truthy_str (ia_verify args)
          \<and> (truthy_str (ia_manifests args) \<or> truthy_str (ia_manifests_interactive args)) \<longrightarrow>
        (\<exists>msg. install loads scopes_from_list current_path args = Inl (ConanException msg)))
     \<and> (the_one_folder args folder \<and> isabs current_path
          \<and> install loads scopes_from_list current_path args = Inr (Install kw) \<longrightarrow>
        ik_manifest_folder kw =
          Some (if isabs folder then folder
                else path_join
                       (case loads (ia_reference args) of
                          Some r \<Rightarrow> current_path
                        | None \<Rightarrow> normpath (path_join current_path (ia_reference args)))
                       folder)
        \<and> (\<exists>resolved. ik_manifest_folder kw = Some resolved \<and> isabs resolved)
        \<and> ik_manifest_verify kw = (ia_verify args \<noteq> None)
        \<and> ik_manifest_interactive kw = (ia_manifests_interactive args \<noteq> None))"
proof (intro impI conjI; (elim conjE)?)
  assume c: "\<not> ia_all args" "\<not> truthy_list (ia_package args)"
  {
    assume "truthy_str (ia_manifests args)" "truthy_str (ia_manifests_interactive args)"
    with c show "\<exists>msg. install loads scopes_from_list current_path args = Inl (ConanException msg)"
      by (intro install_classic_error) auto
  next
    assume "truthy_str (ia_verify args)"
      "truthy_str (ia_manifests args) \<or> truthy_str (ia_manifests_interactive args)"
    with c show "\<exists>msg. install loads scopes_from_list current_path args = Inl (ConanException msg)"
      by (intro install_classic_error) auto
  next
    assume one: "the_one_folder args folder" and cwd: "isabs current_path"
      and run: "install loads scopes_from_list current_path args = Inr (Install kw)"
    let ?ref = "case loads (ia_reference args) of
                  Some r \<Rightarrow> Ref r
                | None \<Rightarrow> Path (normpath (path_join current_path (ia_reference args)))"
    let ?base = "case loads (ia_reference args) of
                   Some r \<Rightarrow> current_path
                 | None \<Rightarrow> normpath (path_join current_path (ia_reference args))"
    from one have ne: "folder \<noteq> []" by (simp add: the_one_folder_def)
    have base: "(case ?ref of Ref r \<Rightarrow> current_path | Path p \<Rightarrow> p) = ?base"
      by (simp split: option.splits)
    have "(ik_manifest_folder kw, ik_manifest_verify kw, ik_manifest_interactive kw)
            = (Some (if isabs folder then folder else path_join ?base folder),
               ia_verify args \<noteq> None, ia_manifests_interactive args \<noteq> None)"
      using install_classic_call [OF run]
        resolve_manifest_folder_one [OF the_one_folder_or [OF one] ne, of current_path ?ref]
      by (simp only: base)
    then have f: "ik_manifest_folder kw = Some (if isabs folder then folder else path_join ?base folder)"
      and v: "ik_manifest_verify kw = (ia_verify args \<noteq> None)"
      and i: "ik_manifest_interactive kw = (ia_manifests_interactive args \<noteq> None)"
      by simp_all
    have "isabs ?base"
      using cwd by (auto split: option.splits intro: isabs_normpath isabs_path_join)
    then have abs: "isabs (if isabs folder then folder else path_join ?base folder)"
      by (simp add: isabs_path_join)
    show "ik_manifest_folder kw = Some (if isabs folder then folder else path_join ?base folder)"
      by (rule f)
    show "\<exists>resolved. ik_manifest_folder kw = Some resolved \<and> isabs resolved"
      using f abs by blast
    show "ik_manifest_verify kw = (ia_verify args \<noteq> None)" by (rule v)
    show "ik_manifest_interactive kw = (ia_manifests_interactive args \<noteq> None)" by (rule i)
  }
qed

theorem install_manifest_flags_witness:
  "install conan_file_reference_loads (\<lambda>items. Inr ()) ''/home/user''
       (hello_args\<lparr>ia_all := False, ia_manifests := Some ''.conan_manifests'',
                   ia_manifests_interactive := Some ''.conan_manifests''\<rparr>)
     = Inl (ConanException both_manifests_msg)
   \<and> install conan_file_reference_loads (\<lambda>items. Inr ()) ''/home/user''
       (hello_args\<lparr>ia_all := False, ia_manifests := Some ''.conan_manifests'',
                   ia_verify := Some ''.conan_manifests''\<rparr>)
     = Inl (ConanException verify_and_manifests_msg)
   \<and> (\<exists>kw. install conan_file_reference_loads (\<lambda>items. Inr ()) ''/home/user''
              (hello_args\<lparr>ia_all := False, ia_manifests := Some ''.conan_manifests''\<rparr>)
            = Inr (Install kw)
          \<and> ik_manifest_folder kw = Some ''/home/user/.conan_manifests''
          \<and> \<not> ik_manifest_verify kw \<and> \<not> ik_manifest_interactive kw)
   \<and> (\<exists>kw. install conan_file_reference_loads (\<lambda>items. Inr ()) ''/home/user''
              (hello_args\<lparr>ia_all := False, ia_reference := ''./my_project'',
                          ia_verify := Some ''stored''\<rparr>)
            = Inr (Install kw)
          \<and> ik_manifest_folder kw = Some ''/home/user/my_project/stored''
          \<and> ik_manifest_verify kw \<and> \<not> ik_manifest_interactive kw)"
proof -
  let ?i = "install conan_file_reference_loads (\<lambda>items. Inr ()) ''/home/user''"
  let ?a1 = "hello_args\<lparr>ia_all := False, ia_manifests := Some ''.conan_manifests'',
                   ia_manifests_interactive := Some ''.conan_manifests''\<rparr>"
  let ?a2 = "hello_args\<lparr>ia_all := False, ia_manifests := Some ''.conan_manifests'',
                   ia_verify := Some ''.conan_manifests''\<rparr>"
  let ?a3 = "hello_args\<lparr>ia_all := False, ia_manifests := Some ''.conan_manifests''\<rparr>"
  let ?a4 = "hello_args\<lparr>ia_all := False, ia_reference := ''./my_project'',
                          ia_verify := Some ''stored''\<rparr>"
  note ev = hello_args_def truthy_str_def truthy_list_def install_def loads_hello loads_folder
    get_tuples_list_from_extender_arg_def get_simple_and_package_tuples_def
    resolve_manifest_folder_def py_or_def get_build_sources_parameter_def
  have 1: "?i ?a1 = Inl (ConanException both_manifests_msg)"
    using install_manifest_flags
      [of ?a1 conan_file_reference_loads "\<lambda>items. Inr ()" "''/home/user''"]
    by (simp add: ev)
  have 2: "?i ?a2 = Inl (ConanException verify_and_manifests_msg)"
    using install_manifest_flags
      [of ?a2 conan_file_reference_loads "\<lambda>items. Inr ()" "''/home/user''"]
    by (simp add: ev)
  have "\<exists>kw. ?i ?a3 = Inr (Install kw)"
    by (simp add: ev Let_def)
  then obtain kw3 where r3: "?i ?a3 = Inr (Install kw3)" ..
  have o3: "the_one_folder ?a3 ''.conan_manifests''"
    by (simp add: the_one_folder_def hello_args_def)
  have cwd: "isabs ''/home/user''" by (simp add: isabs_def)
  have 3: "ik_manifest_folder kw3 = Some ''/home/user/.conan_manifests''
       \<and> \<not> ik_manifest_verify kw3 \<and> \<not> ik_manifest_interactive kw3"
    using install_manifest_flags
      [of ?a3 conan_file_reference_loads "\<lambda>items. Inr ()" "''/home/user''"
          "''.conan_manifests''" kw3] o3 cwd r3
    by (simp add: hello_args_def truthy_list_def loads_hello isabs_def path_join_def)
  have "\<exists>kw. ?i ?a4 = Inr (Install kw)"
    by (simp add: ev Let_def)
  then obtain kw4 where r4: "?i ?a4 = Inr (Install kw4)" ..
  have o4: "the_one_folder ?a4 ''stored''"
    by (simp add: the_one_folder_def hello_args_def)
  have n4: "normpath (path_join ''/home/user'' ''./my_project'') = ''/home/user/my_project''"
    by (simp add: normpath_def path_join_def isabs_def initial_slashes_def normpath_step_def)
  have 4: "ik_manifest_folder kw4 = Some ''/home/user/my_project/stored''
       \<and> ik_manifest_verify kw4 \<and> \<not> ik_manifest_interactive kw4"
    using install_manifest_flags
      [of ?a4 conan_file_reference_loads "\<lambda>items. Inr ()" "''/home/user''"
          "''stored''" kw4] o4 cwd r4
    by (simp add: hello_args_def truthy_list_def loads_folder n4) (simp add: isabs_def path_join_def)
  from 1 2 r3 3 r4 4 show ?thesis by (intro conjI exI [of _ kw3] exI [of _ kw4]) simp_all
qed

text \<open>
  C7: the upload command hands the caller's \<^verbatim>\<open>--retry\<close> and \<^verbatim>\<open>--retry_wait\<close> to the
  upload operation unchanged, 2 and 5 when they are not given, and it makes the call
  whenever no package id is given or the pattern is a reference. Run with these
  arguments, a transfer that keeps failing is retried that many times, waiting that long
  before each retry, and then gives the last failure; one that succeeds within the
  retries gives its result.
\<close>

theorem upload_retry_forwarded:
  "((\<not> truthy_str (uc_package cmd) \<or> is_a_reference (uc_pattern cmd)) \<longrightarrow>
      (\<exists>call. upload is_a_reference cmd = Inr call))
   \<and> (upload is_a_reference cmd = Inr call \<longrightarrow>
        up_retry call = (case uc_retry cmd of None \<Rightarrow> 2 | Some n \<Rightarrow> n)
        \<and> up_retry_wait call = (case uc_retry_wait cmd of None \<Rightarrow> 5 | Some n \<Rightarrow> n)
        \<and> run_upload call (\<lambda>j. TransientFailure (msgs j)) =
            (concat (map (\<lambda>j. [Attempt j, Wait (up_retry_wait call)]) [0..<nat (up_retry call)])
               @ [Attempt (nat (up_retry call))],
             Inl (msgs (nat (up_retry call))))
        \<and> (k \<le> nat (up_retry call) \<and> (\<forall>j<k. \<exists>m. transport j = TransientFailure m)
             \<and> transport k = Succeeded v \<longrightarrow>
            snd (run_upload call transport) = Inr v))"
proof (intro conjI impI)
  assume "\<not> truthy_str (uc_package cmd) \<or> is_a_reference (uc_pattern cmd)"
  then show "\<exists>call. upload is_a_reference cmd = Inr call"
    by (auto simp: upload_def Let_def)
next
  assume u: "upload is_a_reference cmd = Inr call"
  then show "up_retry call = (case uc_retry cmd of None \<Rightarrow> 2 | Some n \<Rightarrow> n)"
    by (auto simp: upload_def Let_def split: if_splits)
  from u show "up_retry_wait call = (case uc_retry_wait cmd of None \<Rightarrow> 5 | Some n \<Rightarrow> n)"
    by (auto simp: upload_def Let_def split: if_splits)
  show "run_upload call (\<lambda>j. TransientFailure (msgs j)) =
            (concat (map (\<lambda>j. [Attempt j, Wait (up_retry_wait call)]) [0..<nat (up_retry call)])
               @ [Attempt (nat (up_retry call))],
             Inl (msgs (nat (up_retry call))))"
    using call_with_retry_all_fail [of "nat (up_retry call)" "up_retry_wait call" msgs 0]
    by (simp add: run_upload_def)
next
  assume "upload is_a_reference cmd = Inr call"
    and h: "k \<le> nat (up_retry call) \<and> (\<forall>j<k. \<exists>m. transport j = TransientFailure m)
             \<and> transport k = Succeeded v"
  then show "snd (run_upload call transport) = Inr v"
    using call_with_retry_success [of k "nat (up_retry call)" transport 0 v "up_retry_wait call"]
    by (simp add: run_upload_def)
qed

theorem upload_retry_forwarded_witness:
  "(\<exists>call. upload (\<lambda>s. conan_file_reference_loads s \<noteq> None) hello_upload = Inr call
       \<and> up_retry call = 2 \<and> up_retry_wait call = 5
       \<and> run_upload call (\<lambda>j. TransientFailure ''timeout'' :: unit attempt)
           = ([Attempt 0, Wait 5, Attempt 1, Wait 5, Attempt 2], Inl ''timeout'')
       \<and> snd (run_upload call (\<lambda>j. if j = 0 then TransientFailure ''timeout'' else Succeeded ()))
           = Inr ())
   \<and> (\<exists>call. upload (\<lambda>s. conan_file_reference_loads s \<noteq> None)
               (hello_upload\<lparr>uc_retry := Some 1, uc_retry_wait := Some 30\<rparr>) = Inr call
       \<and> up_retry call = 1 \<and> up_retry_wait call = 30
       \<and> run_upload call (\<lambda>j. TransientFailure ''timeout'' :: unit attempt)
           = ([Attempt 0, Wait 30, Attempt 1], Inl ''timeout''))"
proof -
  let ?r = "\<lambda>s. conan_file_reference_loads s \<noteq> None"
  let ?c2 = "hello_upload\<lparr>uc_retry := Some 1, uc_retry_wait := Some 30\<rparr>"
  let ?m = "\<lambda>j::nat. ''timeout''"
  let ?t = "\<lambda>j. if j = (0::nat) then TransientFailure ''timeout'' else Succeeded ()"
  have p1: "\<not> truthy_str (uc_package hello_upload)"
    by (simp add: hello_upload_def truthy_str_def)
  have p2: "\<not> truthy_str (uc_package ?c2)"
    by (simp add: hello_upload_def truthy_str_def)
  have "\<exists>call. upload ?r hello_upload = Inr call"
    by (rule mp [OF conjunct1 [OF upload_retry_forwarded [of hello_upload ?r]] disjI1 [OF p1]])
  then obtain call1 where c1: "upload ?r hello_upload = Inr call1" ..
  have "\<exists>call. upload ?r ?c2 = Inr call"
    by (rule mp [OF conjunct1 [OF upload_retry_forwarded [of ?c2 ?r]] disjI1 [OF p2]])
  then obtain call2 where c2: "upload ?r ?c2 = Inr call2" ..
  note t1 = mp [OF conjunct2 [OF upload_retry_forwarded [of hello_upload ?r call1 ?m 1 ?t "()"]] c1]
  note t2 = mp [OF conjunct2 [OF upload_retry_forwarded [of ?c2 ?r call2 ?m 0 ?t "()"]] c2]
  have r1: "up_retry call1 = 2"
    using conjunct1 [OF t1] by (simp add: hello_upload_def)
  have w1: "up_retry_wait call1 = 5"
    using conjunct1 [OF conjunct2 [OF t1]] by (simp add: hello_upload_def)
  have f1: "run_upload call1 (\<lambda>j. TransientFailure ''timeout'' :: unit attempt)
           = ([Attempt 0, Wait 5, Attempt 1, Wait 5, Attempt 2], Inl ''timeout'')"
    using conjunct1 [OF conjunct2 [OF conjunct2 [OF t1]]]
    by (simp add: r1 w1 upt_rec)
  have s1: "snd (run_upload call1 ?t) = Inr ()"
    using conjunct2 [OF conjunct2 [OF conjunct2 [OF t1]]] by (simp add: r1)
  have r2: "up_retry call2 = 1"
    using conjunct1 [OF t2] by (simp add: hello_upload_def)
  have w2: "up_retry_wait call2 = 30"
    using conjunct1 [OF conjunct2 [OF t2]] by (simp add: hello_upload_def)
  have f2: "run_upload call2 (\<lambda>j. TransientFailure ''timeout'' :: unit attempt)
           = ([Attempt 0, Wait 30, Attempt 1], Inl ''timeout'')"
    using conjunct1 [OF conjunct2 [OF conjunct2 [OF t2]]]
    by (simp add: r2 w2 upt_rec)
  show ?thesis
    by (intro conjI exI [of _ call1] exI [of _ call2] c1 r1 w1 f1 s1 c2 r2 w2 f2)
qed

text \<open>
  C5: the lines of a folder's manifest start with the timestamp; the lines after it are
  one line \<^verbatim>\<open>path: checksum\<close> per tracked file, sorted by path; every tracked file
  has its line; computing the manifest again, at another time, over the same content
  gives the same checksum lines; a tracked file \<^verbatim>\<open>hello.h\<close> with content
  \<^verbatim>\<open>hello\<close> gives the line \<^verbatim>\<open>hello.h: 5d41402abc4b2a76b9719d911017c592\<close>.
\<close>

theorem manifest_lines_spec:
  "hd (manifest_lines (compute skip now files)) = show_nat now
   \<and> (\<exists>entries. tl (manifest_lines (compute skip now files)) = map manifest_line entries
         \<and> sorted (map fst entries)
         \<and> length entries = length (tracked skip files)
         \<and> set entries = (\<lambda>(path, content). (path, md5_hexdigest content)) ` set (tracked skip files))
   \<and> ((path, content) \<in> set files \<and> \<not> skip path \<longrightarrow>
        path @ '': '' @ md5_hexdigest content \<in> set (tl (manifest_lines (compute skip now files))))
   \<and> tl (manifest_lines (compute skip now files)) = tl (manifest_lines (compute skip later files))
   \<and> ((''hello.h'', ''hello'') \<in> set files \<and> \<not> skip ''hello.h'' \<longrightarrow>
        ''hello.h: 5d41402abc4b2a76b9719d911017c592''
          \<in> set (tl (manifest_lines (compute skip now files))))"
proof -
  let ?sums = "sort_key fst (map file_sum (tracked skip files))"
  have tl_eq: "\<And>t. tl (manifest_lines (compute skip t files)) = map manifest_line ?sums"
    by (simp add: manifest_lines_compute)
  have mem: "\<And>p c. (p, c) \<in> set files \<Longrightarrow> \<not> skip p
      \<Longrightarrow> p @ '': '' @ md5_hexdigest c \<in> set (map manifest_line ?sums)"
  proof -
    fix p c assume "(p, c) \<in> set files" "\<not> skip p"
    then have "(p, c) \<in> set (tracked skip files)" by (simp add: tracked_def)
    then have "file_sum (p, c) \<in> set ?sums" by simp
    then have "manifest_line (file_sum (p, c)) \<in> set (map manifest_line ?sums)"
      by simp
    then show "p @ '': '' @ md5_hexdigest c \<in> set (map manifest_line ?sums)"
      by (simp add: manifest_line_def file_sum_def)
  qed
  have 1: "hd (manifest_lines (compute skip now files)) = show_nat now"
    by (simp add: manifest_lines_compute)
  have 2: "\<exists>entries. tl (manifest_lines (compute skip now files)) = map manifest_line entries
         \<and> sorted (map fst entries)
         \<and> length entries = length (tracked skip files)
         \<and> set entries = (\<lambda>(path, content). (path, md5_hexdigest content)) ` set (tracked skip files)"
  proof (intro exI [of _ ?sums] conjI)
    show "tl (manifest_lines (compute skip now files)) = map manifest_line ?sums" by (rule tl_eq)
    show "sorted (map fst ?sums)" by (rule sorted_manifest_paths)
    show "length ?sums = length (tracked skip files)" by simp
    have "file_sum = (\<lambda>(path, content). (path, md5_hexdigest content))"
      by (auto simp: file_sum_def)
    then show "set ?sums = (\<lambda>(path, content). (path, md5_hexdigest content)) ` set (tracked skip files)"
      by simp
  qed
  have 3: "(path, content) \<in> set files \<and> \<not> skip path \<longrightarrow>
        path @ '': '' @ md5_hexdigest content \<in> set (tl (manifest_lines (compute skip now files)))"
    using mem [of path content] by (simp only: tl_eq) blast
  have 4: "tl (manifest_lines (compute skip now files)) = tl (manifest_lines (compute skip later files))"
    by (simp only: tl_eq)
  have 5: "(''hello.h'', ''hello'') \<in> set files \<and> \<not> skip ''hello.h'' \<longrightarrow>
        ''hello.h: 5d41402abc4b2a76b9719d911017c592''
          \<in> set (tl (manifest_lines (compute skip now files)))"
  proof (intro impI, elim conjE)
    assume "(''hello.h'', ''hello'') \<in> set files" "\<not> skip ''hello.h''"
    from mem [OF this]
    have "''hello.h'' @ '': '' @ ''5d41402abc4b2a76b9719d911017c592'' \<in> set (map manifest_line ?sums)"
      by (simp only: md5_hello)
    then show "''hello.h: 5d41402abc4b2a76b9719d911017c592''
          \<in> set (tl (manifest_lines (compute skip now files)))"
      by (simp only: tl_eq append.simps)
  qed
  from 1 2 3 4 5 show ?thesis by (intro conjI)
qed

theorem manifest_lines_witness:
  "hd (manifest_lines (compute (\<lambda>path. path = ''conanfile.pyc'') 1500000000
         [(''conanfile.py'', ''recipe''), (''conanfile.pyc'', ''cache''), (''hello.h'', ''hello'')]))
     = ''1500000000''
   \<and> ''hello.h: 5d41402abc4b2a76b9719d911017c592''
       \<in> set (tl (manifest_lines (compute (\<lambda>path. path = ''conanfile.pyc'') 1500000000
            [(''conanfile.py'', ''recipe''), (''conanfile.pyc'', ''cache''), (''hello.h'', ''hello'')])))
   \<and> ''conanfile.py: '' @ md5_hexdigest ''recipe''
       \<in> set (tl (manifest_lines (compute (\<lambda>path. path = ''conanfile.pyc'') 1500000000
            [(''conanfile.py'', ''recipe''), (''conanfile.pyc'', ''cache''), (''hello.h'', ''hello'')])))"
proof -
  let ?skip = "\<lambda>path. path = ''conanfile.pyc''"
  let ?files = "[(''conanfile.py'', ''recipe''), (''conanfile.pyc'', ''cache''), (''hello.h'', ''hello'')]"
  note t = manifest_lines_spec [of ?skip 1500000000 ?files "''conanfile.py''" "''recipe''"]
  have h: "(''hello.h'', ''hello'') \<in> set ?files \<and> \<not> ?skip ''hello.h''" by simp
  have r: "(''conanfile.py'', ''recipe'') \<in> set ?files \<and> \<not> ?skip ''conanfile.py''" by simp
  have "hd (manifest_lines (compute ?skip 1500000000 ?files)) = show_nat 1500000000"
    by (rule conjunct1 [OF t])
  then have 1: "hd (manifest_lines (compute ?skip 1500000000 ?files)) = ''1500000000''"
    by simp
  have 2: "''hello.h: 5d41402abc4b2a76b9719d911017c592''
       \<in> set (tl (manifest_lines (compute ?skip 1500000000 ?files)))"
    by (rule mp [OF conjunct2 [OF conjunct2 [OF conjunct2 [OF conjunct2 [OF t]]]] h])
  have 3: "''conanfile.py'' @ '': '' @ md5_hexdigest ''recipe''
       \<in> set (tl (manifest_lines (compute ?skip 1500000000 ?files)))"
    by (rule mp [OF conjunct1 [OF conjunct2 [OF conjunct2 [OF t]]] r])
  from 3 have c: "''conanfile.py: '' @ md5_hexdigest ''recipe''
       \<in> set (tl (manifest_lines (compute ?skip 1500000000 ?files)))"
    by simp
  from 1 2 c show ?thesis by (intro conjI)
qed

text \<open>
  C3: a recipe is exported, one package of it is built (which creates the source folder),
  everything is uploaded and the local entry is removed. An install then brings back the
  export folder with the files and the manifest it had and the package folder with its
  files and manifest, and leaves the source folder absent; the source folder comes back
  only with a later build. The files and the package payload have no escaping paths
  and both stages of the recipe succeed.
\<close>

theorem round_trip_restores:
  "safe_folder files \<and> source_stage files = Some src \<and> package_stage src = Some payload
     \<and> safe_folder payload \<longrightarrow>
   (\<exists>built uploaded restored e_built pk_built e pk.
      round_trip_built skip t_export t_build source_stage package_stage ref pid files = Inr built
      \<and> w_local built ref = Some e_built
      \<and> ce_source e_built = Some src
      \<and> map_of (ce_packages e_built) pid = Some pk_built
      \<and> sync_upload_all skip ref built = Inr uploaded
      \<and> w_local (store_remove ref uploaded) ref = None
      \<and> round_trip skip t_export t_build t_install source_stage package_stage ref pid files
          = Inr restored
      \<and> w_local restored ref = Some e
      \<and> set (ce_export e) = set files
      \<and> ce_manifest e = ce_manifest e_built
      \<and> ce_manifest e = compute skip t_export files
      \<and> map_of (ce_packages e) pid = Some pk
      \<and> set (pk_files pk) = set payload
      \<and> pk_manifest pk = pk_manifest pk_built
      \<and> ce_source e = None
      \<and> (\<forall>later. build_package skip t_later source_stage package_stage ref pid restored = Inr later
            \<longrightarrow> (\<exists>e'. w_local later ref = Some e' \<and> ce_source e' \<noteq> None)))"
proof (intro impI, elim conjE)
  assume safe: "safe_folder files" "safe_folder payload"
    and stages: "source_stage files = Some src" "package_stage src = Some payload"
  let ?pk = "\<lparr>pk_files = payload, pk_manifest = compute skip t_build payload\<rparr>"
  let ?e = "\<lparr>ce_export = files, ce_manifest = compute skip t_export files,
             ce_source = Some src, ce_builds = [(pid, src)], ce_packages = [(pid, ?pk)]\<rparr>"
  let ?r = "\<lparr>rr_archive = pack files, rr_manifest = compute skip t_export files,
             rr_packages = [(pid, pack payload, compute skip t_build payload)]\<rparr>"
  let ?built = "\<lparr>w_local = (\<lambda>r. None)(ref \<mapsto> ?e), w_remote = (\<lambda>r. None)\<rparr>"
  let ?uploaded = "\<lparr>w_local = (\<lambda>r. None)(ref \<mapsto> ?e), w_remote = (\<lambda>r. None)(ref \<mapsto> ?r)\<rparr>"
  let ?pk' = "\<lparr>pk_files = sort_key fst payload, pk_manifest = compute skip t_build payload\<rparr>"
  let ?e' = "\<lparr>ce_export = sort_key fst files, ce_manifest = compute skip t_export files,
             ce_source = None, ce_builds = [], ce_packages = [(pid, ?pk')]\<rparr>"
  let ?restored = "\<lparr>w_local = ((\<lambda>r. None)(ref \<mapsto> ?e))(ref \<mapsto> ?e'),
                    w_remote = (\<lambda>r. None)(ref \<mapsto> ?r)\<rparr>"
  have b: "round_trip_built skip t_export t_build source_stage package_stage ref pid files
             = Inr ?built"
    using stages by (rule round_trip_built_eq)
  have u: "sync_upload_all skip ref ?built = Inr ?uploaded"
    by (rule upload_built_eq)
  have i: "install_never skip t_install ref pid (store_remove ref ?uploaded) = Inr ?restored"
    by (rule install_after_remove_eq [OF safe])
  have r: "round_trip skip t_export t_build t_install source_stage package_stage ref pid files
             = Inr ?restored"
    by (simp add: round_trip_def b u i)
  have later: "\<forall>later. build_package skip t_later source_stage package_stage ref pid ?restored
                 = Inr later \<longrightarrow> (\<exists>e'. w_local later ref = Some e' \<and> ce_source e' \<noteq> None)"
    using build_package_source by blast
  show "\<exists>built uploaded restored e_built pk_built e pk.
      round_trip_built skip t_export t_build source_stage package_stage ref pid files = Inr built
      \<and> w_local built ref = Some e_built
      \<and> ce_source e_built = Some src
      \<and> map_of (ce_packages e_built) pid = Some pk_built
      \<and> sync_upload_all skip ref built = Inr uploaded
      \<and> w_local (store_remove ref uploaded) ref = None
      \<and> round_trip skip t_export t_build t_install source_stage package_stage ref pid files
          = Inr restored
      \<and> w_local restored ref = Some e
      \<and> set (ce_export e) = set files
      \<and> ce_manifest e = ce_manifest e_built
      \<and> ce_manifest e = compute skip t_export files
      \<and> map_of (ce_packages e) pid = Some pk
      \<and> set (pk_files pk) = set payload
      \<and> pk_manifest pk = pk_manifest pk_built
      \<and> ce_source e = None
      \<and> (\<forall>later. build_package skip t_later source_stage package_stage ref pid restored = Inr later
            \<longrightarrow> (\<exists>e'. w_local later ref = Some e' \<and> ce_source e' \<noteq> None))"
    apply (rule exI [of _ ?built], rule exI [of _ ?uploaded], rule exI [of _ ?restored])
    apply (rule exI [of _ ?e], rule exI [of _ ?pk], rule exI [of _ ?e'], rule exI [of _ ?pk'])
    apply (intro conjI b u r later)
    apply (simp_all add: store_remove_def)
    done
qed

theorem round_trip_restores_witness:
  "\<exists>built uploaded restored e_built pk_built e pk.
      round_trip_built skip_pyc 1 2 Some (\<lambda>src. Some hello_payload) hello_ref hello_pid hello_files
        = Inr built
      \<and> w_local built hello_ref = Some e_built
      \<and> ce_source e_built = Some hello_files
      \<and> map_of (ce_packages e_built) hello_pid = Some pk_built
      \<and> sync_upload_all skip_pyc hello_ref built = Inr uploaded
      \<and> w_local (store_remove hello_ref uploaded) hello_ref = None
      \<and> round_trip skip_pyc 1 2 3 Some (\<lambda>src. Some hello_payload) hello_ref hello_pid hello_files
          = Inr restored
      \<and> w_local restored hello_ref = Some e
      \<and> set (ce_export e) = set hello_files
      \<and> ce_manifest e = ce_manifest e_built
      \<and> ce_manifest e = compute skip_pyc 1 hello_files
      \<and> map_of (ce_packages e) hello_pid = Some pk
      \<and> set (pk_files pk) = set hello_payload
      \<and> pk_manifest pk = pk_manifest pk_built
      \<and> ce_source e = None
      \<and> (\<forall>later. build_package skip_pyc 4 Some (\<lambda>src. Some hello_payload) hello_ref hello_pid
                     restored = Inr later
            \<longrightarrow> (\<exists>e'. w_local later hello_ref = Some e' \<and> ce_source e' \<noteq> None))"
proof -
  have h: "safe_folder hello_files \<and> Some hello_files = Some hello_files
     \<and> (\<lambda>src. Some hello_payload) hello_files = Some hello_payload \<and> safe_folder hello_payload"
    by (simp add: safe_folder_def hello_files_def hello_payload_def escaping_def isabs_def)
  show ?thesis
    by (rule mp [OF round_trip_restores
          [where files = hello_files and source_stage = Some and src = hello_files
             and package_stage = "\<lambda>src. Some hello_payload" and payload = hello_payload
             and skip = skip_pyc and t_export = 1 and t_build = 2 and t_install = 3
             and t_later = 4 and ref = hello_ref and pid = hello_pid] h])
qed

text \<open>
  C4: for a recipe the cache has and the remote has, install with update reports it as
  already installed and leaves everything as it is when the remote manifest has the
  content of the local one, whatever the timestamps; it fetches the recipe only when the
  remote manifest differs in content and has a strictly newer timestamp, and then, the
  archive verifying against its manifest, the export folder and manifest become the
  remote's; with different content and a timestamp not newer nothing is fetched. The
  check itself reports the available update and leaves the world unchanged.
\<close>

theorem install_update_content:
  "w_local w ref = Some e \<and> w_remote w ref = Some r \<longrightarrow>
     (same_sums (ce_manifest e) (rr_manifest r) \<longrightarrow>
        install_update skip now ref w = Inr (AlreadyInstalled, w))
     \<and> ((\<exists>w'. install_update skip now ref w = Inr (Updated, w')) \<longrightarrow>
          \<not> same_sums (ce_manifest e) (rr_manifest r) \<and> m_time (ce_manifest e) < m_time (rr_manifest r))
     \<and> (\<not> same_sums (ce_manifest e) (rr_manifest r) \<and> m_time (ce_manifest e) < m_time (rr_manifest r)
          \<and> unpack (rr_archive r) = Inr files \<and> same_sums (compute skip now files) (rr_manifest r) \<longrightarrow>
        install_update skip now ref w
          = Inr (Updated,
                 w\<lparr>w_local := (w_local w)(ref \<mapsto>
                      e\<lparr>ce_export := files, ce_manifest := rr_manifest r\<rparr>)\<rparr>))
     \<and> (\<not> same_sums (ce_manifest e) (rr_manifest r) \<and> m_time (ce_manifest e) < m_time (rr_manifest r) \<longrightarrow>
        check_updates ref w = (Inr UpdateAvailable, w))
     \<and> (\<not> same_sums (ce_manifest e) (rr_manifest r) \<and> \<not> m_time (ce_manifest e) < m_time (rr_manifest r) \<longrightarrow>
        install_update skip now ref w = Inr (AlreadyInstalled, w))
     \<and> snd (check_updates ref w) = w"
proof (intro impI, elim conjE)
  assume l: "w_local w ref = Some e" and r: "w_remote w ref = Some r"
  note iu = install_update_installed [OF l r, of skip now]
  have 1: "same_sums (ce_manifest e) (rr_manifest r) \<longrightarrow>
        install_update skip now ref w = Inr (AlreadyInstalled, w)"
    by (simp add: iu update_status_of_def)
  have 2: "(\<exists>w'. install_update skip now ref w = Inr (Updated, w')) \<longrightarrow>
          \<not> same_sums (ce_manifest e) (rr_manifest r) \<and> m_time (ce_manifest e) < m_time (rr_manifest r)"
    by (auto simp: iu update_status_of_def split: if_splits)
  have 3: "\<not> same_sums (ce_manifest e) (rr_manifest r) \<and> m_time (ce_manifest e) < m_time (rr_manifest r)
          \<and> unpack (rr_archive r) = Inr files \<and> same_sums (compute skip now files) (rr_manifest r) \<longrightarrow>
        install_update skip now ref w
          = Inr (Updated,
                 w\<lparr>w_local := (w_local w)(ref \<mapsto>
                      e\<lparr>ce_export := files, ce_manifest := rr_manifest r\<rparr>)\<rparr>)"
    by (simp add: iu update_status_of_def download_recipe_installed [OF l r])
  have 4: "\<not> same_sums (ce_manifest e) (rr_manifest r) \<and> m_time (ce_manifest e) < m_time (rr_manifest r) \<longrightarrow>
        check_updates ref w = (Inr UpdateAvailable, w)"
    by (simp add: check_updates_def l r update_status_of_def)
  have 5: "\<not> same_sums (ce_manifest e) (rr_manifest r) \<and> \<not> m_time (ce_manifest e) < m_time (rr_manifest r) \<longrightarrow>
        install_update skip now ref w = Inr (AlreadyInstalled, w)"
    by (simp add: iu update_status_of_def)
  have 6: "snd (check_updates ref w) = w" by (rule check_updates_world)
  from 1 2 3 4 5 6 show "(same_sums (ce_manifest e) (rr_manifest r) \<longrightarrow>
        install_update skip now ref w = Inr (AlreadyInstalled, w))
     \<and> ((\<exists>w'. install_update skip now ref w = Inr (Updated, w')) \<longrightarrow>
          \<not> same_sums (ce_manifest e) (rr_manifest r) \<and> m_time (ce_manifest e) < m_time (rr_manifest r))
     \<and> (\<not> same_sums (ce_manifest e) (rr_manifest r) \<and> m_time (ce_manifest e) < m_time (rr_manifest r)
          \<and> unpack (rr_archive r) = Inr files \<and> same_sums (compute skip now files) (rr_manifest r) \<longrightarrow>
        install_update skip now ref w
          = Inr (Updated,
                 w\<lparr>w_local := (w_local w)(ref \<mapsto>
                      e\<lparr>ce_export := files, ce_manifest := rr_manifest r\<rparr>)\<rparr>))
     \<and> (\<not> same_sums (ce_manifest e) (rr_manifest r) \<and> m_time (ce_manifest e) < m_time (rr_manifest r) \<longrightarrow>
        check_updates ref w = (Inr UpdateAvailable, w))
     \<and> (\<not> same_sums (ce_manifest e) (rr_manifest r) \<and> \<not> m_time (ce_manifest e) < m_time (rr_manifest r) \<longrightarrow>
        install_update skip now ref w = Inr (AlreadyInstalled, w))
     \<and> snd (check_updates ref w) = w"
    by (intro conjI)
qed

theorem install_update_content_witness:
  "install_update skip_pyc 20 hello_ref (installed_world same_remote)
     = Inr (AlreadyInstalled, installed_world same_remote)
   \<and> m_time (ce_manifest installed_entry) < m_time (rr_manifest same_remote)
   \<and> check_updates hello_ref (installed_world licensed_remote)
       = (Inr UpdateAvailable, installed_world licensed_remote)
   \<and> (\<exists>w' e'. install_update skip_pyc 20 hello_ref (installed_world licensed_remote)
                 = Inr (Updated, w')
         \<and> w_local w' hello_ref = Some e'
         \<and> (''license.txt'', ''mylicense'') \<in> set (ce_export e')
         \<and> ce_manifest e' = rr_manifest licensed_remote)"
proof -
  let ?w1 = "installed_world same_remote"
  let ?w2 = "installed_world licensed_remote"
  have l1: "w_local ?w1 hello_ref = Some installed_entry \<and> w_remote ?w1 hello_ref = Some same_remote"
    by (simp add: installed_world_def)
  have l2: "w_local ?w2 hello_ref = Some installed_entry \<and> w_remote ?w2 hello_ref = Some licensed_remote"
    by (simp add: installed_world_def)
  note t1 = mp [OF install_update_content
      [where w = ?w1 and ref = hello_ref and e = installed_entry and r = same_remote
         and skip = skip_pyc and now = 20] l1]
  note t2 = mp [OF install_update_content
      [where w = ?w2 and ref = hello_ref and e = installed_entry and r = licensed_remote
         and skip = skip_pyc and now = 20 and files = licensed_files] l2]
  have same: "same_sums (ce_manifest installed_entry) (rr_manifest same_remote)"
    by (simp add: installed_entry_def same_remote_def same_sums_compute_time)
  have 1: "install_update skip_pyc 20 hello_ref ?w1 = Inr (AlreadyInstalled, ?w1)"
    by (rule mp [OF conjunct1 [OF t1] same])
  have 2: "m_time (ce_manifest installed_entry) < m_time (rr_manifest same_remote)"
    by (simp add: installed_entry_def same_remote_def compute_def)
  have differs: "\<not> same_sums (ce_manifest installed_entry) (rr_manifest licensed_remote)"
  proof
    assume "same_sums (ce_manifest installed_entry) (rr_manifest licensed_remote)"
    then have eq: "set (m_file_sums (ce_manifest installed_entry))
                    = set (m_file_sums (rr_manifest licensed_remote))"
      by (simp add: same_sums_def)
    have a: "(''license.txt'', md5_hexdigest ''mylicense'')
               \<in> set (m_file_sums (rr_manifest licensed_remote))"
      by (simp add: licensed_remote_def licensed_files_def hello_files_def compute_def
          tracked_def skip_pyc_def file_sum_def)
    have b: "(''license.txt'', md5_hexdigest ''mylicense'')
               \<notin> set (m_file_sums (ce_manifest installed_entry))"
      by (simp add: installed_entry_def hello_files_def compute_def
          tracked_def skip_pyc_def file_sum_def)
    from a b eq show False by simp
  qed
  have newer: "m_time (ce_manifest installed_entry) < m_time (rr_manifest licensed_remote)"
    by (simp add: installed_entry_def licensed_remote_def compute_def)
  have unp: "unpack (rr_archive licensed_remote) = Inr licensed_files"
    by (simp add: licensed_remote_def licensed_files_def hello_files_def unpack_def
        escaping_def isabs_def)
  have ver: "same_sums (compute skip_pyc 20 licensed_files) (rr_manifest licensed_remote)"
    by (simp add: licensed_remote_def same_sums_compute_time)
  have 3: "check_updates hello_ref ?w2 = (Inr UpdateAvailable, ?w2)"
    by (rule mp [OF conjunct1 [OF conjunct2 [OF conjunct2 [OF conjunct2 [OF t2]]]]
          conjI [OF differs newer]])
  have u: "install_update skip_pyc 20 hello_ref ?w2
          = Inr (Updated,
                 ?w2\<lparr>w_local := (w_local ?w2)(hello_ref \<mapsto>
                      installed_entry\<lparr>ce_export := licensed_files,
                                      ce_manifest := rr_manifest licensed_remote\<rparr>)\<rparr>)"
    by (rule mp [OF conjunct1 [OF conjunct2 [OF conjunct2 [OF t2]]]
          conjI [OF differs conjI [OF newer conjI [OF unp ver]]]])
  have 4: "\<exists>w' e'. install_update skip_pyc 20 hello_ref ?w2 = Inr (Updated, w')
         \<and> w_local w' hello_ref = Some e'
         \<and> (''license.txt'', ''mylicense'') \<in> set (ce_export e')
         \<and> ce_manifest e' = rr_manifest licensed_remote"
    apply (rule exI [of _ "?w2\<lparr>w_local := (w_local ?w2)(hello_ref \<mapsto>
                      installed_entry\<lparr>ce_export := licensed_files,
                                      ce_manifest := rr_manifest licensed_remote\<rparr>)\<rparr>"])
    apply (rule exI [of _ "installed_entry\<lparr>ce_export := licensed_files,
                                      ce_manifest := rr_manifest licensed_remote\<rparr>"])
    apply (intro conjI u)
    apply (simp_all add: licensed_files_def)
    done
  from 1 2 3 4 show ?thesis by (intro conjI)
qed

end
